theory Spec2Isabelle
  imports Main "HOL-Library.Sublist" "HOL-Library.AList"
begin

section \<open>JavaScript values shared by the two source files\<close>

text \<open>
  Strings are lists of 8-bit code units (Latin-1). A value thrown by a \<^verbatim>\<open>throw\<close>
  is either an \<^verbatim>\<open>Error\<close> object, kept by its \<^verbatim>\<open>message\<close>, or some other value,
  kept by what \<^verbatim>\<open>String(e)\<close> gives for it.
\<close>

datatype thrown = ErrorObj string | NonError string

text \<open>\<^verbatim>\<open>e instanceof Error ? e : new Error(String(e))\<close>\<close>

definition to_Error :: "thrown \<Rightarrow> thrown" where
  "to_Error e = (case e of ErrorObj m \<Rightarrow> ErrorObj m | NonError s \<Rightarrow> ErrorObj s)"

text \<open>\<^verbatim>\<open>e instanceof Error ? e.message : String(e)\<close>\<close>

definition message :: "thrown \<Rightarrow> string" where
  "message e = (case e of ErrorObj m \<Rightarrow> m | NonError s \<Rightarrow> s)"

section \<open>color.ts\<close>

text \<open>
  What the browser supplies to \<^verbatim>\<open>color.ts\<close>: \<^verbatim>\<open>window.location.origin\<close>, the
  \<^verbatim>\<open>protocol\<close> of \<^verbatim>\<open>new URL(url, base)\<close> or the value that constructor throws,
  \<^verbatim>\<open>chroma(c).hex()\<close> of the chroma-js library or the value it throws, and what
  \<^verbatim>\<open>isDarkReaderActive()\<close> reads from the document.
\<close>

record browser =
  location_origin :: string
  URL_protocol :: "string \<Rightarrow> string \<Rightarrow> thrown + string"
  chroma_hex :: "string \<Rightarrow> thrown + string"
  darkReaderActive :: bool

text \<open>An argument of type \<^verbatim>\<open>string | undefined | null\<close>.\<close>

datatype nullable_string = Undefined | Null | Str string

text \<open>
  The argument of \<^verbatim>\<open>sanitizeColorValue\<close> is typed \<^verbatim>\<open>string\<close>, and the function
  guards against anything else at run time: \<open>NotAString\<close> is any value whose
  \<^verbatim>\<open>typeof\<close> is not \<^verbatim>\<open>'string'\<close>.
\<close>

datatype color_arg = NotAString | ColorStr string

text \<open>
  White space of \<^verbatim>\<open>String.prototype.trim\<close> and of \<^verbatim>\<open>\s\<close> among the 8-bit code
  units: tab, line feed, vertical tab, form feed, carriage return, space, no-break space.
\<close>

definition is_ws :: "char \<Rightarrow> bool" where
  "is_ws c = (c = CHR 0x09 \<or> c = CHR 0x0A \<or> c = CHR 0x0B \<or> c = CHR 0x0C \<or> c = CHR 0x0D
     \<or> c = CHR 0x20 \<or> c = CHR 0xA0)"

definition trim :: "string \<Rightarrow> string" where
  "trim s = rev (dropWhile is_ws (rev (dropWhile is_ws s)))"

text \<open>Case folding of the \<^verbatim>\<open>i\<close> flag, on the letters A to Z.\<close>

definition lower_ascii :: "char \<Rightarrow> char" where
  "lower_ascii c =
    (if c = CHR ''A'' then CHR ''a'' else if c = CHR ''B'' then CHR ''b''
     else if c = CHR ''C'' then CHR ''c'' else if c = CHR ''D'' then CHR ''d''
     else if c = CHR ''E'' then CHR ''e'' else if c = CHR ''F'' then CHR ''f''
     else if c = CHR ''G'' then CHR ''g'' else if c = CHR ''H'' then CHR ''h''
     else if c = CHR ''I'' then CHR ''i'' else if c = CHR ''J'' then CHR ''j''
     else if c = CHR ''K'' then CHR ''k'' else if c = CHR ''L'' then CHR ''l''
     else if c = CHR ''M'' then CHR ''m'' else if c = CHR ''N'' then CHR ''n''
     else if c = CHR ''O'' then CHR ''o'' else if c = CHR ''P'' then CHR ''p''
     else if c = CHR ''Q'' then CHR ''q'' else if c = CHR ''R'' then CHR ''r''
     else if c = CHR ''S'' then CHR ''s'' else if c = CHR ''T'' then CHR ''t''
     else if c = CHR ''U'' then CHR ''u'' else if c = CHR ''V'' then CHR ''v''
     else if c = CHR ''W'' then CHR ''w'' else if c = CHR ''X'' then CHR ''x''
     else if c = CHR ''Y'' then CHR ''y'' else if c = CHR ''Z'' then CHR ''z''
     else c)"

text \<open>
  \<^verbatim>\<open>s.replace(/\s*!important\s*$/i, '')\<close>. A match ends at the end of the string, so
  after the white space at the end the ten characters before it spell \<^verbatim>\<open>!important\<close>
  in any case; the leftmost match then starts before all the white space in front of
  them. With no match the string is returned as it is.
\<close>

definition strip_important :: "string \<Rightarrow> string" where
  "strip_important s =
    (let r = dropWhile is_ws (rev s) in
     if map lower_ascii (take 10 r) = rev ''!important''
     then rev (dropWhile is_ws (drop 10 r))
     else s)"

text \<open>\<^verbatim>\<open>s.includes(pat)\<close>\<close>

fun str_includes :: "string \<Rightarrow> string \<Rightarrow> bool" where
  "str_includes [] pat = (pat = [])"
| "str_includes (c # cs) pat = (prefix pat (c # cs) \<or> str_includes cs pat)"

text \<open>\<^verbatim>\<open>sanitizeColorValue\<close>: \<open>None\<close> is the \<^verbatim>\<open>null\<close> it returns.\<close>

definition sanitizeColorValue :: "color_arg \<Rightarrow> string option" where
  "sanitizeColorValue color =
    (case color of
       NotAString \<Rightarrow> None
     | ColorStr s \<Rightarrow>
        if s = [] then None
        else
          let trimmed = trim s in
          if length trimmed = 0 then None
          else
            let cleaned = strip_important trimmed in
            if str_includes cleaned ''var('' then None
            else if cleaned = ''none'' \<or> cleaned = ''transparent'' \<or> cleaned = ''inherit''
                    \<or> cleaned = ''initial'' \<or> cleaned = ''unset''
            then (if cleaned = ''transparent'' then Some ''rgba(0, 0, 0, 0)'' else None)
            else Some cleaned)"

text \<open>
  The two \<^verbatim>\<open>console.warn\<close> calls of \<^verbatim>\<open>getHexColor\<close>, by their arguments:
  \<^item> \<open>ColorParsingFailed color sanitized fallback\<close>: "Color parsing failed (Dark Reader
    detected). Original value: ..., Sanitized: .... Using fallback: ...";
  \<^item> \<open>InvalidColorValue color fallback cause\<close>: "Invalid color value: .... Using
    fallback: .... Error: ...".
\<close>

datatype console_warning =
  ColorParsingFailed string string string
| InvalidColorValue string string string

text \<open>The default value of the parameter \<^verbatim>\<open>fallback\<close>.\<close>

definition fallback_or_default :: "string option \<Rightarrow> string" where
  "fallback_or_default fb = (case fb of None \<Rightarrow> ''#000000'' | Some f \<Rightarrow> f)"

text \<open>\<^verbatim>\<open>`${color}`\<close> of the argument, which is a string wherever it is printed.\<close>

definition color_text :: "color_arg \<Rightarrow> string" where
  "color_text c = (case c of ColorStr s \<Rightarrow> s | NotAString \<Rightarrow> [])"

text \<open>
  \<^verbatim>\<open>getHexColor\<close>: the colour returned and the warnings printed. \<^verbatim>\<open>!sanitized\<close>
  holds for \<^verbatim>\<open>null\<close> and for the empty string.
\<close>

definition getHexColor :: "browser \<Rightarrow> color_arg \<Rightarrow> string option \<Rightarrow> string \<times> console_warning list" where
  "getHexColor br color fb =
    (let fallback = fallback_or_default fb in
     case sanitizeColorValue color of
       None \<Rightarrow> (fallback, [])
     | Some sanitized \<Rightarrow>
        if sanitized = [] then (fallback, [])
        else
          (case chroma_hex br sanitized of
             Inr hex_color \<Rightarrow> (hex_color, [])
           | Inl e \<Rightarrow>
              (fallback,
               [if darkReaderActive br
                then ColorParsingFailed (color_text color) sanitized fallback
                else InvalidColorValue (color_text color) fallback (message e)])))"

text \<open>
  \<^verbatim>\<open>sanitizeURL\<close>. \<^verbatim>\<open>!url\<close> holds for \<^verbatim>\<open>undefined\<close>, \<^verbatim>\<open>null\<close> and the empty
  string; \<^verbatim>\<open>baseURL || window.location.origin\<close> takes the origin for a missing or
  empty base.
\<close>

definition base_or_origin :: "browser \<Rightarrow> string option \<Rightarrow> string" where
  "base_or_origin br baseURL =
    (case baseURL of None \<Rightarrow> location_origin br
     | Some b \<Rightarrow> if b = [] then location_origin br else b)"

definition sanitizeURL :: "browser \<Rightarrow> nullable_string \<Rightarrow> string option \<Rightarrow> string" where
  "sanitizeURL br url baseURL =
    (case url of
       Undefined \<Rightarrow> ''#''
     | Null \<Rightarrow> ''#''
     | Str u \<Rightarrow>
        if u = [] then ''#''
        else
          (case URL_protocol br u (base_or_origin br baseURL) of
             Inl e \<Rightarrow> ''#''
           | Inr protocol \<Rightarrow>
              if protocol = ''http:'' \<or> protocol = ''https:'' then u else ''#''))"

section \<open>The sitemap and its JSON document\<close>

text \<open>
  Modelled from the spec: the types \<^verbatim>\<open>Node\<close>, \<^verbatim>\<open>Link\<close> and \<^verbatim>\<open>Sitemap\<close> of the
  modules \<^verbatim>\<open>./sitemap/build\<close> and \<^verbatim>\<open>./config\<close>, which are not among the source
  files. The fields are those of the spec's data model; \<open>nodes\<close> keeps the mapping from
  id to node in insertion order.
\<close>

datatype kind = Page | Tag | External | Unresolved

datatype classification = InternalResolved | InternalUnresolved | ExternalLink | TagLink

record node =
  node_id :: string
  title :: string
  tags :: "string list"
  nodeStyle :: "string option"
  kind :: kind

record link =
  source :: string
  target :: string
  classification :: classification

record sitemap =
  nodes :: "(string \<times> node) list"
  links :: "link list"

text \<open>
  The values \<^verbatim>\<open>JSON.stringify\<close> is applied to: strings, arrays and objects (an object
  as its properties in order), with \<^verbatim>\<open>null\<close> and the booleans.
\<close>

datatype json = JNull | JBool bool | JString string | JArray "json list" | JObject "(string \<times> json) list"

definition hex_digit :: "nat \<Rightarrow> char" where
  "hex_digit n = ''0123456789abcdef'' ! (n mod 16)"

text \<open>
  \<^verbatim>\<open>QuoteJSONString\<close> of ECMAScript on one 8-bit code unit: the quote and the backslash
  are escaped, a control character is written by its short escape or as \<^verbatim>\<open>\u00XX\<close>.
\<close>

definition quote_char :: "char \<Rightarrow> string" where
  "quote_char c =
    (if c = CHR 0x22 then [CHR 0x5C, CHR 0x22]
     else if c = CHR 0x5C then [CHR 0x5C, CHR 0x5C]
     else if c = CHR 0x08 then [CHR 0x5C, CHR ''b'']
     else if c = CHR 0x09 then [CHR 0x5C, CHR ''t'']
     else if c = CHR 0x0A then [CHR 0x5C, CHR ''n'']
     else if c = CHR 0x0C then [CHR 0x5C, CHR ''f'']
     else if c = CHR 0x0D then [CHR 0x5C, CHR ''r'']
     else if (of_char c :: nat) < 32
       then [CHR 0x5C, CHR ''u'', CHR ''0'', CHR ''0'',
             hex_digit (of_char c div 16), hex_digit (of_char c)]
     else [c])"

definition quote :: "string \<Rightarrow> string" where
  "quote s = [CHR 0x22] @ concat (map quote_char s) @ [CHR 0x22]"

text \<open>The strings of a list with a separator between them, as \<^verbatim>\<open>Array.prototype.join\<close>.\<close>

fun join :: "string \<Rightarrow> string list \<Rightarrow> string" where
  "join sep [] = []"
| "join sep [x] = x"
| "join sep (x # y # ys) = x @ sep @ join sep (y # ys)"

text \<open>
  \<^verbatim>\<open>SerializeJSONProperty\<close> with \<^verbatim>\<open>SerializeJSONArray\<close> and \<^verbatim>\<open>SerializeJSONObject\<close>:
  \<open>gap\<close> is the indentation unit and \<open>indent\<close> the current indentation. With an empty
  gap the elements are separated by a comma and a key from its value by a colon; with a
  gap every element stands on a line of its own, indented one unit more than the
  brackets around it, and a colon and a space separate a key from its value.
\<close>

fun serialize :: "string \<Rightarrow> string \<Rightarrow> json \<Rightarrow> string" where
  "serialize gap indent JNull = ''null''"
| "serialize gap indent (JBool b) = (if b then ''true'' else ''false'')"
| "serialize gap indent (JString s) = quote s"
| "serialize gap indent (JArray xs) =
    (if xs = [] then ''[]''
     else
       let partial = map (serialize gap (indent @ gap)) xs in
       if gap = [] then ''['' @ join '','' partial @ '']''
       else ''['' @ [CHR 0x0A] @ (indent @ gap)
            @ join ('','' @ [CHR 0x0A] @ (indent @ gap)) partial
            @ [CHR 0x0A] @ indent @ '']'')"
| "serialize gap indent (JObject ps) =
    (if ps = [] then ''{}''
     else
       let partial =
         map (\<lambda>p. quote (fst p) @ '':'' @ (if gap = [] then [] else '' '')
                  @ serialize gap (indent @ gap) (snd p)) ps in
       if gap = [] then ''{'' @ join '','' partial @ ''}''
       else ''{'' @ [CHR 0x0A] @ (indent @ gap)
            @ join ('','' @ [CHR 0x0A] @ (indent @ gap)) partial
            @ [CHR 0x0A] @ indent @ ''}'')"

text \<open>
  \<^verbatim>\<open>JSON.stringify(value, null, space)\<close> for a number \<open>space\<close>: the gap is
  \<open>min 10 space\<close> spaces.
\<close>

definition JSON_stringify :: "json \<Rightarrow> nat \<Rightarrow> string" where
  "JSON_stringify v space = serialize (replicate (min 10 space) CHR '' '') [] v"

definition kind_json :: "kind \<Rightarrow> json" where
  "kind_json k = JString (case k of Page \<Rightarrow> ''page'' | Tag \<Rightarrow> ''tag''
     | External \<Rightarrow> ''external'' | Unresolved \<Rightarrow> ''unresolved'')"

definition classification_json :: "classification \<Rightarrow> json" where
  "classification_json c = JString (case c of InternalResolved \<Rightarrow> ''internal-resolved''
     | InternalUnresolved \<Rightarrow> ''internal-unresolved'' | ExternalLink \<Rightarrow> ''external''
     | TagLink \<Rightarrow> ''tag'')"

text \<open>A property whose value is \<^verbatim>\<open>undefined\<close> is left out by \<^verbatim>\<open>JSON.stringify\<close>.\<close>

definition node_json :: "node \<Rightarrow> json" where
  "node_json n = JObject
    ([(''id'', JString (node_id n)), (''title'', JString (title n)),
      (''tags'', JArray (map JString (tags n)))]
     @ (case nodeStyle n of None \<Rightarrow> [] | Some st \<Rightarrow> [(''nodeStyle'', JString st)])
     @ [(''kind'', kind_json (kind n))])"

definition link_json :: "link \<Rightarrow> json" where
  "link_json l = JObject
    [(''source'', JString (source l)), (''target'', JString (target l)),
     (''classification'', classification_json (classification l))]"

definition sitemap_json :: "sitemap \<Rightarrow> json" where
  "sitemap_json s = JObject
    [(''nodes'', JObject (map (\<lambda>p. (fst p, node_json (snd p))) (nodes s))),
     (''links'', JArray (map link_json (links s)))]"

section \<open>The settings and what the hooks are given\<close>

text \<open>
  The fields of \<^verbatim>\<open>FullStarlightSiteGraphConfig\<close> that the hooks read or write. The code
  tests \<^verbatim>\<open>contentRoot\<close> for truthiness only: the empty string stands for an unset or
  empty content root. \<open>sitemap\<close> is \<open>None\<close> while it is \<^verbatim>\<open>undefined\<close>.
\<close>

record sitemap_config =
  contentRoot :: string
  sitemap :: "sitemap option"
  pageInclusionRules :: "string list"

record settings =
  starlight :: bool
  debug :: bool
  sitemapConfig :: sitemap_config

text \<open>
  The fields of \<^verbatim>\<open>AstroConfig\<close> that \<^verbatim>\<open>astro:config:setup\<close> reads. URLs are kept by
  their text; \<open>prefetch\<close> is the truthiness of \<^verbatim>\<open>config.prefetch\<close>; \<open>adapter_name\<close> is
  \<^verbatim>\<open>config.adapter?.name\<close>.
\<close>

record astro_config =
  srcDir_pathname :: string
  trailingSlash :: string
  prefetch :: bool
  adapter_name :: "string option"
  root :: string
  base :: string
  outDir :: string
  output_mode :: string
  build_client :: string

datatype command = Dev | Build | Preview | Sync

datatype format = Markdown | HTML

record file_record =
  path :: string
  raw_text :: string

text \<open>What the Link/Tag Extractor gives for one file: the node and its outbound edges.\<close>

record extracted =
  e_id :: string
  e_title :: string
  e_tags :: "string list"
  e_nodeStyle :: "string option"
  e_edges :: "(string \<times> classification) list"

text \<open>The three \<^verbatim>\<open>updateConfig\<close> calls, by what they add to the Vite configuration.\<close>

datatype vite_update = PicomatchPolyfill | PixiStats bool | MicromatchOptimize

datatype host_call =
  CallUpdateConfig vite_update
| CallAddVirtualImports
| CallInjectScript

text \<open>
  Everything the hooks take from outside the two source files. A call that can throw
  gives the value thrown: \<open>Some e\<close>, or \<open>Inl e\<close> where it also returns a result.
  \<^item> \<open>trimSlashes\<close> and \<open>processSitemap\<close> are functions of this repository
    (\<^verbatim>\<open>./sitemap/util\<close>, \<^verbatim>\<open>./sitemap/process\<close>) that are not among the source files;
  \<^item> \<open>scan\<close> and \<open>extract_file\<close> are the Content Scanner and the Link/Tag Extractor behind
    \<^verbatim>\<open>addMDContentFolder\<close> and \<^verbatim>\<open>addHTMLContentFolder\<close>: \<open>scan\<close> reads the directory
    tree and throws when it cannot access its root;
  \<^item> \<open>fs_access\<close>, \<open>fs_mkdir\<close> and \<open>fs_writeFile\<close> are \<^verbatim>\<open>fs.promises\<close>;
  \<^item> \<open>new_URL\<close> and \<open>fileURLToPath\<close> are Node's; \<open>require_pixi_stats\<close> is
    \<^verbatim>\<open>require('pixi-stats').default()\<close>;
  \<^item> \<open>host_throws\<close> is what a call into Astro throws.
\<close>

record env =
  trimSlashes :: "string \<Rightarrow> string"
  processSitemap :: "sitemap option \<Rightarrow> settings \<Rightarrow> thrown + sitemap"
  scan :: "format \<Rightarrow> string \<Rightarrow> string list \<Rightarrow> thrown + file_record list"
  extract_file :: "format \<Rightarrow> file_record \<Rightarrow> extracted"
  fs_access :: "string \<Rightarrow> thrown option"
  fs_mkdir :: "string \<Rightarrow> thrown option"
  fs_writeFile :: "string \<Rightarrow> string \<Rightarrow> thrown option"
  new_URL :: "string \<Rightarrow> string \<Rightarrow> thrown + string"
  fileURLToPath :: "string \<Rightarrow> thrown + string"
  require_pixi_stats :: "thrown option"
  host_throws :: "host_call \<Rightarrow> thrown option"

section \<open>The sitemap builder\<close>

text \<open>
  Modelled from the spec: the class \<^verbatim>\<open>SiteMapBuilder\<close> of \<^verbatim>\<open>./sitemap/build\<close>, which is
  not among the source files. The builder holds what its three setters stored and the
  accumulator of the Graph Assembler: for every canonical id, in insertion order, the
  node and its outbound edges.
\<close>

record builder =
  b_contentRoot :: "string option"
  b_basePath :: "string option"
  b_trailingSlash :: "bool option"
  entries :: "(string \<times> node \<times> link list) list"

definition new_SiteMapBuilder :: "sitemap_config \<Rightarrow> builder" where
  "new_SiteMapBuilder c =
    \<lparr>b_contentRoot = None, b_basePath = None, b_trailingSlash = None, entries = []\<rparr>"

definition setContentRoot :: "string \<Rightarrow> builder \<Rightarrow> builder" where
  "setContentRoot p b = b\<lparr>b_contentRoot := Some p\<rparr>"

definition setTrailingSlash :: "bool \<Rightarrow> builder \<Rightarrow> builder" where
  "setTrailingSlash t b = b\<lparr>b_trailingSlash := Some t\<rparr>"

definition setBasePath :: "string \<Rightarrow> builder \<Rightarrow> builder" where
  "setBasePath p b = b\<lparr>b_basePath := Some p\<rparr>"

text \<open>
  The Graph Assembler: a record upserts its node and replaces the node's whole outbound
  edge set, which holds no edge twice.
\<close>

definition entry_of :: "extracted \<Rightarrow> node \<times> link list" where
  "entry_of r =
    (\<lparr>node_id = e_id r, title = e_title r, tags = e_tags r, nodeStyle = e_nodeStyle r,
      kind = Page\<rparr>,
     remdups (map (\<lambda>e. \<lparr>source = e_id r, target = fst e, classification = snd e\<rparr>)
       (e_edges r)))"

definition upsert :: "extracted \<Rightarrow> (string \<times> node \<times> link list) list \<Rightarrow> (string \<times> node \<times> link list) list" where
  "upsert r acc = AList.update (e_id r) (entry_of r) acc"

definition addPass :: "extracted list \<Rightarrow> builder \<Rightarrow> builder" where
  "addPass rs b = b\<lparr>entries := fold upsert rs (entries b)\<rparr>"

text \<open>One pass: scan, extract, assemble. A scan that cannot access its root throws.\<close>

definition addContentFolder :: "env \<Rightarrow> format \<Rightarrow> string \<Rightarrow> string list \<Rightarrow> builder \<Rightarrow> thrown + builder" where
  "addContentFolder ev f dir rules b =
    (case scan ev f dir rules of
       Inl e \<Rightarrow> Inl e
     | Inr files \<Rightarrow> Inr (addPass (map (extract_file ev f) files) b))"

definition addMDContentFolder :: "env \<Rightarrow> string \<Rightarrow> string list \<Rightarrow> builder \<Rightarrow> thrown + builder" where
  "addMDContentFolder ev dir rules b = addContentFolder ev Markdown dir rules b"

definition addHTMLContentFolder :: "env \<Rightarrow> string \<Rightarrow> string list \<Rightarrow> builder \<Rightarrow> thrown + builder" where
  "addHTMLContentFolder ev dir rules b = addContentFolder ev HTML dir rules b"

text \<open>
  The Backlink/Tag Deriver. An internal link is resolved exactly when its target is the
  id of an assembled node; every distinct tag of a page gets one tag node, named by the
  tag, and every page one tag edge to each of its tags.
\<close>

definition reclassify :: "string list \<Rightarrow> link \<Rightarrow> link" where
  "reclassify ids l =
    (case classification l of
       ExternalLink \<Rightarrow> l
     | TagLink \<Rightarrow> l
     | InternalResolved \<Rightarrow>
         l\<lparr>classification := (if target l \<in> set ids then InternalResolved else InternalUnresolved)\<rparr>
     | InternalUnresolved \<Rightarrow>
         l\<lparr>classification := (if target l \<in> set ids then InternalResolved else InternalUnresolved)\<rparr>)"

definition tag_node :: "string \<Rightarrow> node" where
  "tag_node t = \<lparr>node_id = t, title = t, tags = [], nodeStyle = None, kind = Tag\<rparr>"

definition all_tags :: "(string \<times> node \<times> link list) list \<Rightarrow> string list" where
  "all_tags acc = remdups (concat (map (\<lambda>p. tags (fst (snd p))) acc))"

definition tag_links :: "(string \<times> node \<times> link list) list \<Rightarrow> link list" where
  "tag_links acc =
    concat (map (\<lambda>p. map (\<lambda>t. \<lparr>source = fst p, target = t, classification = TagLink\<rparr>)
                      (remdups (tags (fst (snd p))))) acc)"

definition finalize :: "(string \<times> node \<times> link list) list \<Rightarrow> sitemap" where
  "finalize acc =
    \<lparr>nodes = map (\<lambda>p. (fst p, fst (snd p))) acc @ map (\<lambda>t. (t, tag_node t)) (all_tags acc),
     links = concat (map (\<lambda>p. map (reclassify (map fst acc)) (snd (snd p))) acc) @ tag_links acc\<rparr>"

text \<open>
  The backlink index is derived from the links: the sources of the resolved internal
  links into a node, a link of a page to itself left out.
\<close>

definition backlinks :: "sitemap \<Rightarrow> string \<Rightarrow> string list" where
  "backlinks s i =
    remdups (map source (filter (\<lambda>l. classification l = InternalResolved \<and> target l = i
                                      \<and> source l \<noteq> i) (links s)))"

text \<open>
  \<^verbatim>\<open>process()\<close> runs the deriver on the accumulator and leaves the builder as it is;
  \<^verbatim>\<open>toSitemap()\<close> of its result is the finalized sitemap.
\<close>

datatype processed = Processed sitemap

definition process :: "builder \<Rightarrow> builder \<times> processed" where
  "process b = (b, Processed (finalize (entries b)))"

definition toSitemap :: "processed \<Rightarrow> sitemap" where
  "toSitemap p = (case p of Processed s \<Rightarrow> s)"

section \<open>The integration: setup and its hooks\<close>

text \<open>
  What the logger is given, by message and arguments. In the order of the source:
  \<^item> \<open>PicomatchPatchFailed cause\<close>: "Failed to apply picomatch compatibility patch. ...";
  \<^item> \<open>PrefetchEnabled\<close>: "`prefetch` is disabled in the Astro config, ...";
  \<^item> \<open>RetrievingMarkdown rules\<close>: "Retrieving links from Markdown content ...";
  \<^item> \<open>ContentDirectoryNotFound dir cause\<close>: "Content directory not found: ... The site
    graph will continue with an empty sitemap. ...";
  \<^item> \<open>FinishedMarkdown\<close>: "Finished retrieving links from Markdown content";
  \<^item> \<open>MarkdownFailed cause\<close>: "Failed to process Markdown content ...";
  \<^item> \<open>UsingAppliedSitemap\<close>: "Using applied sitemap";
  \<^item> \<open>PixiStatsMissing\<close>: "Failed to load `pixi-stats`, ...";
  \<^item> \<open>DegradedMode reason\<close>: "Site graph is running in DEGRADED MODE with an empty
    sitemap. Reason: ...";
  \<^item> \<open>OutputDirectoryUnknown\<close>: "Output directory couldn't be determined. ...";
  \<^item> \<open>RetrievingHTML\<close>: "Retrieving links from generated HTML content";
  \<^item> \<open>FinishedHTML\<close>: "Finished generating sitemap from generated HTML content";
  \<^item> \<open>HTMLFallback cause\<close>: "Failed to retrieve links from generated HTML content.
    Falling back to Markdown-only sitemap. ...";
  \<^item> \<open>SitemapCreated nodeCount linkCount\<close>: "Sitemap created at
    'dist/sitegraph/sitemap.json' with ... nodes and ... links";
  \<^item> \<open>WriteFailed cause\<close>: "Failed to write sitemap file to disk. ...".
\<close>

text \<open>The local \<^verbatim>\<open>sitemapErrorMessage\<close>, set together with \<^verbatim>\<open>sitemapGenerationFailed\<close>.\<close>

datatype failure = ContentDirectoryMissing string | MarkdownProcessingFailed

datatype log_message =
  PicomatchPatchFailed string
| PrefetchEnabled
| RetrievingMarkdown "string list"
| ContentDirectoryNotFound string string
| FinishedMarkdown
| MarkdownFailed string
| UsingAppliedSitemap
| PixiStatsMissing
| DegradedMode failure
| OutputDirectoryUnknown
| RetrievingHTML
| FinishedHTML
| HTMLFallback string
| SitemapCreated nat nat
| WriteFailed string

datatype level = Info | Warn | Err

text \<open>What a hook does to the outside, in order: a call is listed when it returned.\<close>

datatype effect =
  Logged level log_message
| ConfigUpdated vite_update
| VirtualImportsAdded settings astro_config
| ScriptInjected
| DirectoryMade string
| FileWritten string string

text \<open>
  The variables the hooks share (\<^verbatim>\<open>settings\<close>, \<^verbatim>\<open>builder\<close>, \<^verbatim>\<open>sitemapProvided\<close>,
  \<^verbatim>\<open>outputPath\<close>, which is \<open>None\<close> while it is \<^verbatim>\<open>undefined\<close>), and the effects so far.
  A hook returns the state it leaves and the value it throws, if any.
\<close>

record state =
  settings :: settings
  builder :: builder
  sitemapProvided :: bool
  outputPath :: "string option"
  effects :: "effect list"

text \<open>The body of \<^verbatim>\<open>setup\<close> before it returns the hooks (lines 23 to 27).\<close>

definition integration_setup :: "settings \<Rightarrow> state" where
  "integration_setup opts =
    \<lparr>settings = opts,
     builder = new_SiteMapBuilder (sitemapConfig opts),
     sitemapProvided = (sitemap (sitemapConfig opts) \<noteq> None),
     outputPath = None,
     effects = []\<rparr>"

definition emit :: "effect \<Rightarrow> state \<Rightarrow> state" where
  "emit x s = s\<lparr>effects := effects s @ [x]\<rparr>"

definition logger :: "level \<Rightarrow> log_message \<Rightarrow> state \<Rightarrow> state" where
  "logger l m s = emit (Logged l m) s"

definition set_sitemap :: "sitemap option \<Rightarrow> state \<Rightarrow> state" where
  "set_sitemap v s = s\<lparr>settings := (settings s)\<lparr>sitemapConfig := (sitemapConfig (settings s))\<lparr>sitemap := v\<rparr>\<rparr>\<rparr>"

definition set_contentRoot :: "string \<Rightarrow> state \<Rightarrow> state" where
  "set_contentRoot v s = s\<lparr>settings := (settings s)\<lparr>sitemapConfig := (sitemapConfig (settings s))\<lparr>contentRoot := v\<rparr>\<rparr>\<rparr>"

text \<open>A call into Astro outside any \<^verbatim>\<open>try\<close>: what it throws leaves the hook.\<close>

definition call_host :: "env \<Rightarrow> host_call \<Rightarrow> effect \<Rightarrow> state \<Rightarrow> state \<times> thrown option" where
  "call_host ev c x s = (case host_throws ev c of None \<Rightarrow> (emit x s, None) | Some e \<Rightarrow> (s, Some e))"

text \<open>Sequencing: the statements after a throw do not run.\<close>

definition and_then :: "state \<times> thrown option \<Rightarrow> (state \<Rightarrow> state \<times> thrown option) \<Rightarrow> state \<times> thrown option" where
  "and_then r f = (case snd r of None \<Rightarrow> f (fst r) | Some e \<Rightarrow> r)"

subsection \<open>\<^verbatim>\<open>astro:config:setup\<close>\<close>

text \<open>Lines 38 to 74: the first \<^verbatim>\<open>updateConfig\<close>, in a \<^verbatim>\<open>try\<close>.\<close>

definition apply_picomatch_patch :: "env \<Rightarrow> state \<Rightarrow> state" where
  "apply_picomatch_patch ev s =
    (case host_throws ev (CallUpdateConfig PicomatchPolyfill) of
       None \<Rightarrow> emit (ConfigUpdated PicomatchPolyfill) s
     | Some e \<Rightarrow> logger Err (PicomatchPatchFailed (message e)) s)"

text \<open>Lines 76 to 83.\<close>

definition default_contentRoot :: "env \<Rightarrow> astro_config \<Rightarrow> state \<Rightarrow> state" where
  "default_contentRoot ev config s =
    (if contentRoot (sitemapConfig (settings s)) = []
     then set_contentRoot
            (trimSlashes ev (srcDir_pathname config)
             @ (if starlight (settings s) then ''/content/docs'' else ''/pages'')) s
     else s)"

text \<open>Lines 85 to 87.\<close>

definition addTrailingSlash :: "astro_config \<Rightarrow> bool" where
  "addTrailingSlash config = (trailingSlash config \<noteq> ''never'')"

definition configure_builder :: "astro_config \<Rightarrow> state \<Rightarrow> state" where
  "configure_builder config s =
    s\<lparr>builder := setTrailingSlash (addTrailingSlash config)
                   (setContentRoot (contentRoot (sitemapConfig (settings s))) (builder s))\<rparr>"

text \<open>Lines 90 to 93: the configuration object is changed in place.\<close>

definition ensure_prefetch :: "astro_config \<Rightarrow> state \<Rightarrow> state \<times> astro_config" where
  "ensure_prefetch config s =
    (if \<not> prefetch config then (logger Warn PrefetchEnabled s, config\<lparr>prefetch := True\<rparr>)
     else (s, config))"

text \<open>Lines 96 to 104. \<^verbatim>\<open>config.base?.replace(/^\//, "")\<close> drops one leading slash.\<close>

definition drop_leading_slash :: "string \<Rightarrow> string" where
  "drop_leading_slash b = (case b of [] \<Rightarrow> [] | c # cs \<Rightarrow> if c = CHR ''/'' then cs else b)"

definition bind_path :: "thrown + string \<Rightarrow> (string \<Rightarrow> thrown + string) \<Rightarrow> thrown + string" where
  "bind_path r f = (case r of Inl e \<Rightarrow> Inl e | Inr u \<Rightarrow> f u)"

definition resolve_outputPath :: "env \<Rightarrow> astro_config \<Rightarrow> thrown + string" where
  "resolve_outputPath ev config =
    (if (case adapter_name config of None \<Rightarrow> False | Some n \<Rightarrow> prefix ''@astrojs/vercel'' n)
     then bind_path (new_URL ev ''.vercel/output/static/'' (root config)) (fileURLToPath ev)
     else if adapter_name config = Some ''@astrojs/cloudflare''
     then bind_path (new_URL ev (drop_leading_slash (base config)) (outDir config)) (fileURLToPath ev)
     else if adapter_name config = Some ''@astrojs/node'' \<and> output_mode config = ''server''
     then fileURLToPath ev (build_client config)
     else fileURLToPath ev (outDir config))"

definition choose_outputPath :: "env \<Rightarrow> astro_config \<Rightarrow> state \<Rightarrow> state \<times> thrown option" where
  "choose_outputPath ev config s =
    (case resolve_outputPath ev config of
       Inl e \<Rightarrow> (s, Some e)
     | Inr p \<Rightarrow> (s\<lparr>outputPath := Some p\<rparr>, None))"

text \<open>
  Lines 106 to 157, for a sitemap that was not provided. The result says whether
  \<^verbatim>\<open>sitemapGenerationFailed\<close> was set, and with which message. Nothing here throws:
  both \<^verbatim>\<open>try\<close> blocks catch.
\<close>

definition process_builder :: "state \<Rightarrow> state" where
  "process_builder s =
    (let (b, p) = process (builder s) in set_sitemap (Some (toSitemap p)) (s\<lparr>builder := b\<rparr>))"

definition retrieve_markdown_links :: "env \<Rightarrow> command \<Rightarrow> astro_config \<Rightarrow> state \<Rightarrow> state \<times> failure option" where
  "retrieve_markdown_links ev cmd config s0 =
    (let s1 = logger Info (RetrievingMarkdown (pageInclusionRules (sitemapConfig (settings s0)))) s0 in
     if cmd = Dev \<or> cmd = Build then
       let s2 = s1\<lparr>builder := setBasePath (base config) (builder s1)\<rparr>;
           dir = contentRoot (sitemapConfig (settings s2)) in
       (case fs_access ev dir of
          Some e \<Rightarrow>
            (process_builder
               (logger Err (ContentDirectoryNotFound dir (message (to_Error e))) s2),
             Some (ContentDirectoryMissing dir))
        | None \<Rightarrow>
            (case addMDContentFolder ev dir (pageInclusionRules (sitemapConfig (settings s2))) (builder s2) of
               Inr b \<Rightarrow>
                 (logger Info FinishedMarkdown (process_builder (s2\<lparr>builder := b\<rparr>)), None)
             | Inl e \<Rightarrow>
                 (process_builder (logger Err (MarkdownFailed (message (to_Error e))) s2),
                  Some MarkdownProcessingFailed)))
     else (s1, None))"

text \<open>Lines 158 to 161, for a provided sitemap: \<^verbatim>\<open>processSitemap\<close> is outside any \<^verbatim>\<open>try\<close>.\<close>

definition apply_provided_sitemap :: "env \<Rightarrow> state \<Rightarrow> state \<times> thrown option" where
  "apply_provided_sitemap ev s0 =
    (let s1 = logger Info UsingAppliedSitemap s0 in
     case processSitemap ev (sitemap (sitemapConfig (settings s1))) (settings s1) of
       Inl e \<Rightarrow> (s1, Some e)
     | Inr m \<Rightarrow> (set_sitemap (Some m) s1, None))"

text \<open>Lines 163 to 179.\<close>

definition add_pixi_stats :: "env \<Rightarrow> command \<Rightarrow> state \<Rightarrow> state \<times> thrown option" where
  "add_pixi_stats ev cmd s =
    (if cmd = Dev \<and> debug (settings s) then
       (case require_pixi_stats ev of
          None \<Rightarrow> call_host ev (CallUpdateConfig (PixiStats True)) (ConfigUpdated (PixiStats True)) s
        | Some e \<Rightarrow>
            call_host ev (CallUpdateConfig (PixiStats False)) (ConfigUpdated (PixiStats False))
              (logger Warn PixiStatsMissing s))
     else (s, None))"

text \<open>Lines 182 to 190.\<close>

definition optimize_micromatch :: "env \<Rightarrow> command \<Rightarrow> state \<Rightarrow> state \<times> thrown option" where
  "optimize_micromatch ev cmd s =
    (if cmd = Dev then call_host ev (CallUpdateConfig MicromatchOptimize) (ConfigUpdated MicromatchOptimize) s
     else (s, None))"

text \<open>Lines 202 to 210.\<close>

definition warn_degraded :: "failure option \<Rightarrow> state \<Rightarrow> state" where
  "warn_degraded failed s =
    (case failed of None \<Rightarrow> s | Some reason \<Rightarrow> logger Warn (DegradedMode reason) s)"

text \<open>
  Lines 106 to 161: the sitemap is crawled or the provided one is processed. The result
  carries \<^verbatim>\<open>sitemapGenerationFailed\<close> with its message.
\<close>

definition generate_sitemap :: "env \<Rightarrow> command \<Rightarrow> astro_config \<Rightarrow> state \<Rightarrow> (state \<times> thrown option) \<times> failure option" where
  "generate_sitemap ev cmd config s =
    (if \<not> sitemapProvided s
     then (let (s', failed) = retrieve_markdown_links ev cmd config s in ((s', None), failed))
     else (apply_provided_sitemap ev s, None))"

text \<open>Lines 163 to 220, after the sitemap.\<close>

definition finish_config_setup :: "env \<Rightarrow> command \<Rightarrow> astro_config \<Rightarrow> failure option \<Rightarrow> state \<Rightarrow> state \<times> thrown option" where
  "finish_config_setup ev cmd config failed s6 =
    and_then (add_pixi_stats ev cmd s6) (\<lambda>s7.
    and_then (optimize_micromatch ev cmd s7) (\<lambda>s8.
    and_then (call_host ev CallAddVirtualImports (VirtualImportsAdded (settings s8) config) s8) (\<lambda>s9.
    call_host ev CallInjectScript ScriptInjected (warn_degraded failed s9))))"

text \<open>The hook, statement by statement.\<close>

definition astro_config_setup :: "env \<Rightarrow> command \<Rightarrow> astro_config \<Rightarrow> state \<Rightarrow> state \<times> thrown option" where
  "astro_config_setup ev cmd config0 s0 =
    (let s1 = apply_picomatch_patch ev s0;
         s2 = default_contentRoot ev config0 s1;
         s3 = configure_builder config0 s2;
         (s4, config) = ensure_prefetch config0 s3 in
     and_then (choose_outputPath ev config s4) (\<lambda>s5.
       let (r, failed) = generate_sitemap ev cmd config s5 in
       and_then r (finish_config_setup ev cmd config failed)))"

subsection \<open>\<^verbatim>\<open>astro:build:done\<close>\<close>

text \<open>\<^verbatim>\<open>!outputPath\<close> holds for \<^verbatim>\<open>undefined\<close> and for the empty string.\<close>

definition falsy_path :: "string option \<Rightarrow> bool" where
  "falsy_path p = (case p of None \<Rightarrow> True | Some d \<Rightarrow> d = [])"

text \<open>\<^verbatim>\<open>`${outputPath}`\<close> in a template literal.\<close>

definition template :: "string option \<Rightarrow> string" where
  "template p = (case p of None \<Rightarrow> ''undefined'' | Some d \<Rightarrow> d)"

text \<open>
  Node rejects a path and a file content that are \<^verbatim>\<open>undefined\<close> with a
  \<^verbatim>\<open>TypeError\<close>, before it touches the file system.
\<close>

definition path_type_error :: thrown where
  \<open>path_type_error = ErrorObj
    ''The "path" argument must be of type string or an instance of Buffer or URL. Received undefined''\<close>

definition data_type_error :: thrown where
  \<open>data_type_error = ErrorObj
    ''The "data" argument must be of type string or an instance of Buffer, TypedArray, or DataView. Received undefined''\<close>

text \<open>Lines 256 to 268, the \<^verbatim>\<open>catch\<close> of the HTML pass.\<close>

definition html_fallback :: "thrown \<Rightarrow> state \<Rightarrow> state" where
  "html_fallback e s = logger Warn (HTMLFallback (message (to_Error e))) (process_builder s)"

text \<open>Lines 247 to 269, for a sitemap that was not provided.\<close>

definition retrieve_html_links :: "env \<Rightarrow> state \<Rightarrow> state" where
  "retrieve_html_links ev s0 =
    (let s1 = logger Info RetrievingHTML s0 in
     case outputPath s1 of
       None \<Rightarrow> html_fallback path_type_error s1
     | Some dir \<Rightarrow>
        (case fs_access ev dir of
           Some e \<Rightarrow> html_fallback e s1
         | None \<Rightarrow>
            (case addHTMLContentFolder ev dir (pageInclusionRules (sitemapConfig (settings s1))) (builder s1) of
               Inl e \<Rightarrow> html_fallback e s1
             | Inr b \<Rightarrow> logger Info FinishedHTML (process_builder (s1\<lparr>builder := b\<rparr>)))))"

text \<open>Lines 283 to 292, the \<^verbatim>\<open>catch\<close> of the write: log, then throw again.\<close>

definition write_failed :: "thrown \<Rightarrow> state \<Rightarrow> state \<times> thrown option" where
  "write_failed e s = (logger Err (WriteFailed (message (to_Error e))) s, Some (to_Error e))"

definition sitegraph_dir :: "state \<Rightarrow> string" where
  "sitegraph_dir s = template (outputPath s) @ ''/sitegraph''"

definition sitemap_file :: "state \<Rightarrow> string" where
  "sitemap_file s = template (outputPath s) @ ''/sitegraph/sitemap.json''"

text \<open>\<^verbatim>\<open>settings.debug ? 2 : 0\<close>\<close>

definition indent_of :: "settings \<Rightarrow> nat" where
  "indent_of st = (if debug st then 2 else 0)"

text \<open>Lines 271 to 292. \<^verbatim>\<open>JSON.stringify\<close> of \<^verbatim>\<open>undefined\<close> is \<^verbatim>\<open>undefined\<close>.\<close>

definition persist_sitemap :: "env \<Rightarrow> state \<Rightarrow> state \<times> thrown option" where
  "persist_sitemap ev s =
    (case fs_mkdir ev (sitegraph_dir s) of
       Some e \<Rightarrow> write_failed e s
     | None \<Rightarrow>
        (let s1 = emit (DirectoryMade (sitegraph_dir s)) s in
         case sitemap (sitemapConfig (settings s1)) of
           None \<Rightarrow> write_failed data_type_error s1
         | Some m \<Rightarrow>
            (let content = JSON_stringify (sitemap_json m) (indent_of (settings s1)) in
             case fs_writeFile ev (sitemap_file s1) content of
               Some e \<Rightarrow> write_failed e s1
             | None \<Rightarrow>
                (logger Info (SitemapCreated (length (nodes m)) (length (links m)))
                   (emit (FileWritten (sitemap_file s1) content) s1),
                 None))))"

text \<open>Lines 239 to 245.\<close>

definition warn_unknown_output :: "state \<Rightarrow> state" where
  "warn_unknown_output s =
    (if falsy_path (outputPath s) then logger Warn OutputDirectoryUnknown s else s)"

definition html_pass :: "env \<Rightarrow> state \<Rightarrow> state" where
  "html_pass ev s = (if \<not> sitemapProvided s then retrieve_html_links ev s else s)"

definition astro_build_done :: "env \<Rightarrow> state \<Rightarrow> state \<times> thrown option" where
  "astro_build_done ev s0 = persist_sitemap ev (html_pass ev (warn_unknown_output s0))"

section \<open>What a hook wrote\<close>

text \<open>The files written among the effects, in order, each with its content.\<close>

fun written_files :: "effect list \<Rightarrow> (string \<times> string) list" where
  "written_files [] = []"
| "written_files (FileWritten p c # xs) = (p, c) # written_files xs"
| "written_files (x # xs) = written_files xs"

section \<open>Sample inputs\<close>

text \<open>
  A browser for the concrete instances below: \<^verbatim>\<open>new URL\<close> gives a \<^verbatim>\<open>javascript:\<close> URL
  its own protocol and a relative reference the protocol of its base; chroma-js knows
  two colours and throws on the rest.
\<close>

definition sample_browser :: browser where
  "sample_browser =
    \<lparr>location_origin = ''https://example.com'',
     URL_protocol = (\<lambda>u b. if prefix ''javascript:'' u then Inr ''javascript:''
                           else if prefix ''ftp:'' b then Inr ''ftp:'' else Inr ''https:''),
     chroma_hex = (\<lambda>c. if c = ''rgba(0, 0, 0, 0)'' then Inr ''#00000000''
                         else if c = ''red'' then Inr ''#ff0000''
                         else Inl (ErrorObj (''unknown format: '' @ c))),
     darkReaderActive = False\<rparr>"

text \<open>
  A site for the concrete instances below. The directories \<^verbatim>\<open>docs\<close> and
  \<^verbatim>\<open>/site/dist/\<close> exist; \<^verbatim>\<open>docs\<close> holds the page \<^verbatim>\<open>a\<close>, which links to \<^verbatim>\<open>b\<close>, and
  the page \<^verbatim>\<open>b\<close>; nothing can be created under \<^verbatim>\<open>/readonly/\<close>; Astro's calls return.
\<close>

definition strip_slashes :: "string \<Rightarrow> string" where
  "strip_slashes p = rev (dropWhile (\<lambda>c. c = CHR ''/'') (rev (dropWhile (\<lambda>c. c = CHR ''/'') p)))"

definition sample_extract :: "format \<Rightarrow> file_record \<Rightarrow> extracted" where
  "sample_extract f r =
    \<lparr>e_id = path r, e_title = path r, e_tags = [], e_nodeStyle = None,
     e_edges = (if raw_text r = [] then [] else [(raw_text r, InternalUnresolved)])\<rparr>"

definition sample_env :: env where
  "sample_env =
    \<lparr>trimSlashes = strip_slashes,
     processSitemap = (\<lambda>m st. case m of None \<Rightarrow> Inl (ErrorObj ''no sitemap'') | Some x \<Rightarrow> Inr x),
     scan = (\<lambda>f dir rules.
        if dir = ''docs'' \<or> dir = ''/site/dist/''
        then Inr [\<lparr>path = ''a'', raw_text = ''b''\<rparr>, \<lparr>path = ''b'', raw_text = []\<rparr>]
        else Inl (ErrorObj (''ENOENT: no such file or directory, scandir '' @ dir))),
     extract_file = sample_extract,
     fs_access = (\<lambda>p. if p = ''docs'' \<or> p = ''/site/dist/'' then None
        else Some (ErrorObj (''ENOENT: no such file or directory, access '' @ p))),
     fs_mkdir = (\<lambda>p. if prefix ''/readonly/'' p
        then Some (ErrorObj (''EACCES: permission denied, mkdir '' @ p)) else None),
     fs_writeFile = (\<lambda>p c. None),
     new_URL = (\<lambda>rel b. Inr (b @ rel)),
     fileURLToPath = (\<lambda>u. if prefix ''file://'' u then Inr (drop 7 u)
        else Inl (ErrorObj ''The URL must be of scheme file'')),
     require_pixi_stats = Some (ErrorObj ''Cannot find module pixi-stats''),
     host_throws = (\<lambda>c. None)\<rparr>"

definition sample_config :: astro_config where
  "sample_config =
    \<lparr>srcDir_pathname = ''/site/src/'', trailingSlash = ''ignore'', prefetch = False,
     adapter_name = None, root = ''file:///site/'', base = ''/'', outDir = ''file:///site/dist/'',
     output_mode = ''static'', build_client = ''file:///site/dist/client/''\<rparr>"

text \<open>Settings with no content root, and settings that name \<^verbatim>\<open>docs\<close>.\<close>

definition sample_settings :: settings where
  "sample_settings =
    \<lparr>starlight = True, debug = False,
     sitemapConfig = \<lparr>contentRoot = [], sitemap = None, pageInclusionRules = []\<rparr>\<rparr>"

definition docs_settings :: settings where
  "docs_settings =
    \<lparr>starlight = True, debug = True,
     sitemapConfig = \<lparr>contentRoot = ''docs'', sitemap = None, pageInclusionRules = []\<rparr>\<rparr>"

text \<open>
  The shared variables as \<^verbatim>\<open>astro:build:done\<close> finds them after a Markdown pass over
  \<^verbatim>\<open>docs\<close>, with the output directory \<^verbatim>\<open>/site/dist/\<close>.
\<close>

definition crawled_state :: state where
  "crawled_state =
    \<lparr>settings = docs_settings,
     builder = addPass
       (map (sample_extract Markdown) [\<lparr>path = ''a'', raw_text = ''b''\<rparr>, \<lparr>path = ''b'', raw_text = []\<rparr>])
       (setBasePath ''/'' (setTrailingSlash True (setContentRoot ''docs''
          (new_SiteMapBuilder (sitemapConfig docs_settings))))),
     sitemapProvided = False,
     outputPath = Some ''/site/dist/'',
     effects = []\<rparr>"

section \<open>Properties of color.ts\<close>

lemma sanitizeColorValue_None_iff:
  "sanitizeColorValue color = None \<longleftrightarrow>
     (color = NotAString \<or>
      (\<exists>s. color = ColorStr s \<and>
         (trim s = [] \<or> str_includes (strip_important (trim s)) ''var(''
          \<or> strip_important (trim s) = ''none'' \<or> strip_important (trim s) = ''inherit''
          \<or> strip_important (trim s) = ''initial'' \<or> strip_important (trim s) = ''unset'')))"
  by (cases color) (auto simp: sanitizeColorValue_def Let_def trim_def)

lemma str_includes_iff: "str_includes s pat \<longleftrightarrow> (\<exists>xs ys. s = xs @ pat @ ys)"
proof (induction s)
  case Nil
  then show ?case by auto
next
  case (Cons c cs)
  show ?case
  proof
    assume "str_includes (c # cs) pat"
    then consider "prefix pat (c # cs)" | "str_includes cs pat" by auto
    then show "\<exists>xs ys. c # cs = xs @ pat @ ys"
    proof cases
      case 1
      then obtain ys where "c # cs = pat @ ys" by (auto simp: prefix_def)
      then have "c # cs = [] @ pat @ ys" by simp
      then show ?thesis by blast
    next
      case 2
      with Cons obtain xs ys where "cs = xs @ pat @ ys" by auto
      then have "c # cs = (c # xs) @ pat @ ys" by simp
      then show ?thesis by blast
    qed
  next
    assume "\<exists>xs ys. c # cs = xs @ pat @ ys"
    then obtain xs ys where e: "c # cs = xs @ pat @ ys" by auto
    show "str_includes (c # cs) pat"
    proof (cases xs)
      case Nil
      with e have "prefix pat (c # cs)" by (simp add: prefix_def)
      then show ?thesis by simp
    next
      case (Cons x xs')
      with e have "cs = xs' @ pat @ ys" by simp
      with Cons.IH show ?thesis by auto
    qed
  qed
qed

lemma str_includes_rev: "str_includes (rev s) (rev pat) = str_includes s pat"
proof -
  have "(\<exists>xs ys. rev s = xs @ rev pat @ ys) \<longleftrightarrow> (\<exists>xs ys. s = xs @ pat @ ys)"
  proof
    assume "\<exists>xs ys. rev s = xs @ rev pat @ ys"
    then obtain xs ys where "rev s = xs @ rev pat @ ys" by auto
    then have "rev (rev s) = rev (xs @ rev pat @ ys)" by simp
    then have "s = rev ys @ pat @ rev xs" by simp
    then show "\<exists>xs ys. s = xs @ pat @ ys" by blast
  next
    assume "\<exists>xs ys. s = xs @ pat @ ys"
    then obtain xs ys where "s = xs @ pat @ ys" by auto
    then have "rev s = rev ys @ rev pat @ rev xs" by simp
    then show "\<exists>xs ys. rev s = xs @ rev pat @ ys" by blast
  qed
  then show ?thesis by (simp add: str_includes_iff)
qed

lemma str_includes_dropWhile:
  assumes "str_includes s (p # ps)" and "\<not> P p"
  shows "str_includes (dropWhile P s) (p # ps)"
proof -
  from assms(1) obtain xs ys where s: "s = xs @ (p # ps) @ ys" by (auto simp: str_includes_iff)
  show ?thesis
  proof (cases "\<forall>x\<in>set xs. P x")
    case True
    with assms(2) have "dropWhile P s = [] @ (p # ps) @ ys" by (simp add: s)
    then show ?thesis unfolding str_includes_iff by blast
  next
    case False
    then obtain x where "x \<in> set xs" "\<not> P x" by auto
    then have "dropWhile P s = dropWhile P xs @ (p # ps) @ ys"
      unfolding s by (rule dropWhile_append1)
    then show ?thesis unfolding str_includes_iff by blast
  qed
qed

lemma var_rev: "rev ''var('' = ''(rav''" by simp

lemma str_includes_trim:
  assumes "str_includes s ''var(''"
  shows "str_includes (trim s) ''var(''"
proof -
  have 1: "str_includes (dropWhile is_ws s) ''var(''"
    using assms by (rule str_includes_dropWhile) (simp add: is_ws_def)
  then have "str_includes (rev (dropWhile is_ws s)) ''(rav''"
    using str_includes_rev [of "dropWhile is_ws s" "''var(''"] by simp
  then have "str_includes (dropWhile is_ws (rev (dropWhile is_ws s))) ''(rav''"
    by (rule str_includes_dropWhile) (simp add: is_ws_def)
  then show ?thesis
    using str_includes_rev [of "dropWhile is_ws (rev (dropWhile is_ws s))" "''(rav''"]
    by (simp add: trim_def)
qed

lemma lower_ascii_paren: "lower_ascii c = CHR ''('' \<longleftrightarrow> c = CHR ''(''"
  by (simp add: lower_ascii_def)

lemma str_includes_strip_important:
  assumes "str_includes t ''var(''"
  shows "str_includes (strip_important t) ''var(''"
proof (cases "map lower_ascii (take 10 (dropWhile is_ws (rev t))) = rev ''!important''")
  case False
  with assms show ?thesis by (simp add: strip_important_def Let_def)
next
  case True
  let ?r = "dropWhile is_ws (rev t)"
  have "str_includes (rev t) ''(rav''"
    using assms str_includes_rev [of t "''var(''"] by simp
  then have "str_includes ?r ''(rav''"
    by (rule str_includes_dropWhile) (simp add: is_ws_def)
  then obtain xs ys where r: "?r = xs @ ''(rav'' @ ys" by (auto simp: str_includes_iff)
  have len: "10 \<le> length xs"
  proof (rule ccontr)
    assume "\<not> 10 \<le> length xs"
    then obtain k where k: "10 - length xs = Suc k" by (cases "10 - length xs") auto
    have "CHR ''('' \<in> set (take 10 ?r)" by (simp add: r k)
    then have "lower_ascii (CHR ''('') \<in> set (map lower_ascii (take 10 ?r))"
      by simp
    then show False unfolding True by (simp add: lower_ascii_def)
  qed
  then have "drop 10 ?r = drop 10 xs @ ''(rav'' @ ys" by (simp add: r)
  then have "str_includes (drop 10 ?r) ''(rav''" unfolding str_includes_iff by blast
  then have "str_includes (dropWhile is_ws (drop 10 ?r)) ''(rav''"
    by (rule str_includes_dropWhile) (simp add: is_ws_def)
  then have "str_includes (rev (dropWhile is_ws (drop 10 ?r))) ''var(''"
    using str_includes_rev [of "rev (dropWhile is_ws (drop 10 ?r))" "''var(''"] by simp
  with True show ?thesis by (simp add: strip_important_def Let_def)
qed

lemma sanitizeColorValue_var:
  "str_includes s ''var('' \<Longrightarrow> sanitizeColorValue (ColorStr s) = None"
  using str_includes_strip_important [OF str_includes_trim, of s]
  by (simp add: sanitizeColorValue_def Let_def)

text \<open>
  C10. \<^verbatim>\<open>getHexColor\<close> returns a colour for every argument. \<^verbatim>\<open>sanitizeColorValue\<close>
  rejects exactly a value that is not a string, a string that is empty after trimming,
  and a string that, trimmed and with a trailing \<^verbatim>\<open>!important\<close> stripped, contains
  \<^verbatim>\<open>var(\<close> or is one of \<^verbatim>\<open>none\<close>, \<^verbatim>\<open>inherit\<close>, \<^verbatim>\<open>initial\<close>, \<^verbatim>\<open>unset\<close>; then
  \<^verbatim>\<open>getHexColor\<close> returns the fallback and prints nothing. When chroma-js throws on the
  sanitized value the fallback is returned as well. The default fallback is
  \<^verbatim>\<open>#000000\<close>. A value that cleans to \<^verbatim>\<open>transparent\<close> is not rejected: it is
  rewritten to \<^verbatim>\<open>rgba(0, 0, 0, 0)\<close>, and that is what chroma-js is given. A string that
  contains \<^verbatim>\<open>var(\<close> anywhere still contains it when cleaned, and is rejected.
\<close>

theorem getHexColor_fallback:
  "(sanitizeColorValue color = None \<longleftrightarrow>
      (color = NotAString \<or>
       (\<exists>s. color = ColorStr s \<and>
          (trim s = [] \<or> str_includes (strip_important (trim s)) ''var(''
           \<or> strip_important (trim s) = ''none'' \<or> strip_important (trim s) = ''inherit''
           \<or> strip_important (trim s) = ''initial'' \<or> strip_important (trim s) = ''unset''))))
   \<and> (sanitizeColorValue color = None \<longrightarrow> getHexColor br color fb = (fallback_or_default fb, []))
   \<and> (sanitizeColorValue color = Some c \<longrightarrow> chroma_hex br c = Inl e \<longrightarrow>
        fst (getHexColor br color fb) = fallback_or_default fb)
   \<and> fallback_or_default None = ''#000000''
   \<and> (trim s \<noteq> [] \<longrightarrow> strip_important (trim s) = ''transparent'' \<longrightarrow>
        sanitizeColorValue (ColorStr s) = Some ''rgba(0, 0, 0, 0)''
        \<and> fst (getHexColor br (ColorStr s) fb) =
            (case chroma_hex br ''rgba(0, 0, 0, 0)'' of Inr h \<Rightarrow> h | Inl e \<Rightarrow> fallback_or_default fb))
   \<and> (str_includes t ''var('' \<longrightarrow> sanitizeColorValue (ColorStr t) = None)"
proof (intro conjI impI)
  show "sanitizeColorValue color = None \<longleftrightarrow>
      (color = NotAString \<or>
       (\<exists>s. color = ColorStr s \<and>
          (trim s = [] \<or> str_includes (strip_important (trim s)) ''var(''
           \<or> strip_important (trim s) = ''none'' \<or> strip_important (trim s) = ''inherit''
           \<or> strip_important (trim s) = ''initial'' \<or> strip_important (trim s) = ''unset'')))"
    by (rule sanitizeColorValue_None_iff)
next
  assume "sanitizeColorValue color = None"
  then show "getHexColor br color fb = (fallback_or_default fb, [])"
    by (simp add: getHexColor_def)
next
  assume "sanitizeColorValue color = Some c" "chroma_hex br c = Inl e"
  then show "fst (getHexColor br color fb) = fallback_or_default fb"
    by (simp add: getHexColor_def Let_def)
next
  show "fallback_or_default None = ''#000000''" by (simp add: fallback_or_default_def)
next
  assume a: "trim s \<noteq> []" "strip_important (trim s) = ''transparent''"
  then have "s \<noteq> []" by (auto simp: trim_def)
  with a show t: "sanitizeColorValue (ColorStr s) = Some ''rgba(0, 0, 0, 0)''"
    by (simp add: sanitizeColorValue_def Let_def)
  show "fst (getHexColor br (ColorStr s) fb) =
            (case chroma_hex br ''rgba(0, 0, 0, 0)'' of Inr h \<Rightarrow> h | Inl e \<Rightarrow> fallback_or_default fb)"
    by (simp add: getHexColor_def t Let_def split: sum.splits)
next
  assume "str_includes t ''var(''"
  then show "sanitizeColorValue (ColorStr t) = None" by (rule sanitizeColorValue_var)
qed

lemma sanitize_var: "sanitizeColorValue (ColorStr '' var(--c) !IMPORTANT'') = None"
  by (simp add: sanitizeColorValue_def trim_def is_ws_def strip_important_def lower_ascii_def Let_def)

lemma sanitize_bogus: "sanitizeColorValue (ColorStr ''bogus'') = Some ''bogus''"
  by (simp add: sanitizeColorValue_def trim_def is_ws_def strip_important_def lower_ascii_def Let_def)

lemma clean_transparent:
  "trim '' transparent !important '' \<noteq> []
   \<and> strip_important (trim '' transparent !important '') = ''transparent''"
  by (simp add: trim_def is_ws_def strip_important_def lower_ascii_def Let_def)

theorem getHexColor_fallback_witness:
  "getHexColor sample_browser (ColorStr '' var(--c) !IMPORTANT'') None = (''#000000'', [])
   \<and> fst (getHexColor sample_browser (ColorStr ''bogus'') (Some ''#4a9eff'')) = ''#4a9eff''
   \<and> fst (getHexColor sample_browser (ColorStr '' transparent !important '') None) = ''#00000000''"
proof -
  have c: "chroma_hex sample_browser ''bogus'' = Inl (ErrorObj ''unknown format: bogus'')"
    by (simp add: sample_browser_def)
  have r: "chroma_hex sample_browser ''rgba(0, 0, 0, 0)'' = Inr ''#00000000''"
    by (simp add: sample_browser_def)
  from getHexColor_fallback [of "ColorStr '' var(--c) !IMPORTANT''" sample_browser None]
    sanitize_var
  have 1: "getHexColor sample_browser (ColorStr '' var(--c) !IMPORTANT'') None = (''#000000'', [])"
    by (simp add: fallback_or_default_def)
  from getHexColor_fallback [of "ColorStr ''bogus''" sample_browser "Some ''#4a9eff''" "''bogus''"]
    sanitize_bogus c
  have 2: "fst (getHexColor sample_browser (ColorStr ''bogus'') (Some ''#4a9eff'')) = ''#4a9eff''"
    by (simp add: fallback_or_default_def)
  from getHexColor_fallback [of _ sample_browser None _ _ "'' transparent !important ''"]
    clean_transparent r
  have 3: "fst (getHexColor sample_browser (ColorStr '' transparent !important '') None) = ''#00000000''"
    by simp
  from 1 2 3 show ?thesis by simp
qed

text \<open>
  C9, as the claim states it, fails at the url \<^verbatim>\<open>#\<close>: against a base whose protocol is
  \<^verbatim>\<open>ftp:\<close> the reference \<^verbatim>\<open>#\<close> parses to an \<^verbatim>\<open>ftp:\<close> URL, the safe default \<^verbatim>\<open>#\<close>
  is returned, and that is the original url, unchanged.
\<close>

theorem sanitizeURL_hash_counterexample:
  "sanitizeURL sample_browser (Str ''#'') (Some ''ftp://example.com/'') = ''#''
   \<and> URL_protocol sample_browser ''#'' (base_or_origin sample_browser (Some ''ftp://example.com/''))
       = Inr ''ftp:''"
  by (simp add: sanitizeURL_def sample_browser_def base_or_origin_def)

text \<open>
  C9, amended. \<^verbatim>\<open>sanitizeURL\<close> returns the url unchanged when it is a non-empty string
  that parses, against the given base or else the origin, to a URL whose protocol is
  \<^verbatim>\<open>http:\<close> or \<^verbatim>\<open>https:\<close>, and returns \<^verbatim>\<open>#\<close> in every other case: for
  \<^verbatim>\<open>undefined\<close>, \<^verbatim>\<open>null\<close>, the empty string, a url that does not parse, and any other
  protocol. It returns a string for every argument: what the parser throws is caught.
\<close>

theorem sanitizeURL_result:
  "sanitizeURL br url baseURL =
     (case url of
        Str u \<Rightarrow>
          if u \<noteq> [] \<and> (URL_protocol br u (base_or_origin br baseURL) = Inr ''http:''
                        \<or> URL_protocol br u (base_or_origin br baseURL) = Inr ''https:'')
          then u else ''#''
      | _ \<Rightarrow> ''#'')"
  by (auto simp: sanitizeURL_def split: nullable_string.splits sum.splits)

theorem sanitizeURL_result_witness:
  "sanitizeURL sample_browser (Str ''/docs/intro'') None = ''/docs/intro''
   \<and> sanitizeURL sample_browser (Str ''javascript:alert(1)'') None = ''#''
   \<and> sanitizeURL sample_browser Null None = ''#''"
  using sanitizeURL_result [of sample_browser "Str ''/docs/intro''" None]
    sanitizeURL_result [of sample_browser "Str ''javascript:alert(1)''" None]
    sanitizeURL_result [of sample_browser Null None]
  by (simp add: sample_browser_def base_or_origin_def)

section \<open>Properties of the hooks\<close>


lemma state_emit [simp]:
  "settings (emit x s) = settings s" "builder (emit x s) = builder s"
  "sitemapProvided (emit x s) = sitemapProvided s" "outputPath (emit x s) = outputPath s"
  "effects (emit x s) = effects s @ [x]"
  by (simp_all add: emit_def)

lemma state_logger [simp]:
  "settings (logger l m s) = settings s" "builder (logger l m s) = builder s"
  "sitemapProvided (logger l m s) = sitemapProvided s" "outputPath (logger l m s) = outputPath s"
  "effects (logger l m s) = effects s @ [Logged l m]"
  by (simp_all add: logger_def)

lemma state_process_builder [simp]:
  "builder (process_builder s) = builder s"
  "effects (process_builder s) = effects s"
  "sitemapProvided (process_builder s) = sitemapProvided s"
  "outputPath (process_builder s) = outputPath s"
  "sitemap (sitemapConfig (settings (process_builder s))) = Some (finalize (entries (builder s)))"
  "debug (settings (process_builder s)) = debug (settings s)"
  "starlight (settings (process_builder s)) = starlight (settings s)"
  "contentRoot (sitemapConfig (settings (process_builder s))) = contentRoot (sitemapConfig (settings s))"
  "pageInclusionRules (sitemapConfig (settings (process_builder s))) = pageInclusionRules (sitemapConfig (settings s))"
  by (simp_all add: process_builder_def process_def toSitemap_def set_sitemap_def)

lemma and_then_preserves:
  assumes "\<And>s'. Q (fst (f s')) = Q s'"
  shows "Q (fst (and_then r f)) = Q (fst r)"
  by (cases "snd r") (simp_all add: and_then_def assms)

lemma call_host_fields [simp]:
  "builder (fst (call_host ev c x s)) = builder s"
  "settings (fst (call_host ev c x s)) = settings s"
  "outputPath (fst (call_host ev c x s)) = outputPath s"
  by (simp_all add: call_host_def split: option.splits)

lemma bts_addContentFolder:
  "addContentFolder ev f dir rules b = Inr b' \<Longrightarrow> b_trailingSlash b' = b_trailingSlash b"
  by (auto simp: addContentFolder_def addPass_def split: sum.splits)

lemma bts_retrieve_markdown:
  "b_trailingSlash (builder (fst (retrieve_markdown_links ev cmd config s))) = b_trailingSlash (builder s)"
  by (auto simp: retrieve_markdown_links_def Let_def setBasePath_def addMDContentFolder_def
      dest: bts_addContentFolder split: option.splits sum.splits)

lemma builder_apply_provided [simp]:
  "builder (fst (apply_provided_sitemap ev s)) = builder s"
  by (simp add: apply_provided_sitemap_def Let_def set_sitemap_def split: sum.splits)

lemma builder_pixi [simp]: "builder (fst (add_pixi_stats ev cmd s)) = builder s"
  by (simp add: add_pixi_stats_def split: option.splits)

lemma builder_micromatch [simp]: "builder (fst (optimize_micromatch ev cmd s)) = builder s"
  by (simp add: optimize_micromatch_def)

lemma builder_warn_degraded [simp]: "builder (warn_degraded f s) = builder s"
  by (simp add: warn_degraded_def split: option.splits)

lemma builder_choose [simp]: "builder (fst (choose_outputPath ev config s)) = builder s"
  by (simp add: choose_outputPath_def split: sum.splits)

lemma builder_prefetch [simp]: "builder (fst (ensure_prefetch config s)) = builder s"
  by (simp add: ensure_prefetch_def)

lemma builder_picomatch [simp]: "builder (apply_picomatch_patch ev s) = builder s"
  by (simp add: apply_picomatch_patch_def split: option.splits)

lemma builder_default_root [simp]: "builder (default_contentRoot ev config s) = builder s"
  by (simp add: default_contentRoot_def set_contentRoot_def)

lemma bts_generate:
  "b_trailingSlash (builder (fst (fst (generate_sitemap ev cmd config s)))) = b_trailingSlash (builder s)"
  using bts_retrieve_markdown [of ev cmd config s]
  by (auto simp: generate_sitemap_def split: prod.splits)

lemma builder_finish [simp]:
  "builder (fst (finish_config_setup ev cmd config failed s)) = builder s"
  unfolding finish_config_setup_def
  by (simp add: and_then_def split: option.splits)

lemma resolve_outputPath_prefetch [simp]:
  "resolve_outputPath ev (config\<lparr>prefetch := b\<rparr>) = resolve_outputPath ev config"
  by (simp add: resolve_outputPath_def)

lemma finalize_empty: "finalize [] = \<lparr>nodes = [], links = []\<rparr>"
  by (simp add: finalize_def all_tags_def tag_links_def)

lemma to_Error_simps [simp]: "to_Error (to_Error e) = to_Error e" "message (to_Error e) = message e"
  by (cases e; simp add: to_Error_def message_def)+

lemma retrieve_markdown_access_fails:
  assumes "cmd = Dev \<or> cmd = Build"
      and "fs_access ev (contentRoot (sitemapConfig (settings s))) = Some e"
  shows "retrieve_markdown_links ev cmd config s =
    (process_builder
       (logger Err (ContentDirectoryNotFound (contentRoot (sitemapConfig (settings s))) (message e))
          ((logger Info (RetrievingMarkdown (pageInclusionRules (sitemapConfig (settings s)))) s)
             \<lparr>builder := setBasePath (base config) (builder s)\<rparr>)),
     Some (ContentDirectoryMissing (contentRoot (sitemapConfig (settings s)))))"
  using assms by (auto simp: retrieve_markdown_links_def Let_def)

lemma finish_config_setup_returns:
  assumes "\<forall>u. u \<noteq> PicomatchPolyfill \<longrightarrow> host_throws ev (CallUpdateConfig u) = None"
      and "host_throws ev CallAddVirtualImports = None" "host_throws ev CallInjectScript = None"
  shows "snd (finish_config_setup ev cmd config failed s) = None"
    and "settings (fst (finish_config_setup ev cmd config failed s)) = settings s"
    and "set (effects s) \<subseteq> set (effects (fst (finish_config_setup ev cmd config failed s)))"
    and "failed = Some r \<Longrightarrow>
         Logged Warn (DegradedMode r) \<in> set (effects (fst (finish_config_setup ev cmd config failed s)))"
proof -
  from assms(1) have h: "host_throws ev (CallUpdateConfig (PixiStats True)) = None"
    "host_throws ev (CallUpdateConfig (PixiStats False)) = None"
    "host_throws ev (CallUpdateConfig MicromatchOptimize) = None" by simp_all
  define s7 where "s7 = fst (add_pixi_stats ev cmd s)"
  have 7: "add_pixi_stats ev cmd s = (s7, None)" "settings s7 = settings s"
    "set (effects s) \<subseteq> set (effects s7)"
    unfolding s7_def using h by (auto simp: add_pixi_stats_def call_host_def split: option.splits)
  define s8 where "s8 = fst (optimize_micromatch ev cmd s7)"
  have 8: "optimize_micromatch ev cmd s7 = (s8, None)" "settings s8 = settings s7"
    "set (effects s7) \<subseteq> set (effects s8)"
    unfolding s8_def using h by (auto simp: optimize_micromatch_def call_host_def)
  have f: "finish_config_setup ev cmd config failed s =
      (emit ScriptInjected (warn_degraded failed (emit (VirtualImportsAdded (settings s8) config) s8)), None)"
    using 7 8 assms(2,3) by (simp add: finish_config_setup_def and_then_def call_host_def)
  show "snd (finish_config_setup ev cmd config failed s) = None" by (simp add: f)
  show "settings (fst (finish_config_setup ev cmd config failed s)) = settings s"
    using 7 8 by (simp add: f warn_degraded_def split: option.splits)
  show "set (effects s) \<subseteq> set (effects (fst (finish_config_setup ev cmd config failed s)))"
    using 7 8 by (auto simp: f warn_degraded_def split: option.splits)
  show "failed = Some r \<Longrightarrow>
         Logged Warn (DegradedMode r) \<in> set (effects (fst (finish_config_setup ev cmd config failed s)))"
    using f by (simp add: warn_degraded_def)
qed

lemma outputPath_html_fallback [simp]: "outputPath (html_fallback e s) = outputPath s"
  by (simp add: html_fallback_def)

lemma outputPath_retrieve_html [simp]: "outputPath (retrieve_html_links ev s) = outputPath s"
  by (simp add: retrieve_html_links_def Let_def split: option.splits sum.splits)

lemma outputPath_html_pass [simp]: "outputPath (html_pass ev s) = outputPath s"
  by (simp add: html_pass_def)

lemma outputPath_warn [simp]: "outputPath (warn_unknown_output s) = outputPath s"
  by (simp add: warn_unknown_output_def)

lemma persist_throws:
  "snd (persist_sitemap ev s) =
     (case fs_mkdir ev (sitegraph_dir s) of
        Some e \<Rightarrow> Some (to_Error e)
      | None \<Rightarrow>
         (case sitemap (sitemapConfig (settings s)) of
            None \<Rightarrow> Some (to_Error data_type_error)
          | Some m \<Rightarrow>
             map_option to_Error
               (fs_writeFile ev (sitemap_file s) (JSON_stringify (sitemap_json m) (indent_of (settings s))))))"
  by (simp add: persist_sitemap_def write_failed_def Let_def sitemap_file_def split: option.splits)

lemma debug_html_fallback [simp]: "debug (settings (html_fallback e s)) = debug (settings s)"
  by (simp add: html_fallback_def)

lemma debug_retrieve_html [simp]: "debug (settings (retrieve_html_links ev s)) = debug (settings s)"
  by (simp add: retrieve_html_links_def Let_def split: option.splits sum.splits)

lemma debug_html_pass [simp]: "debug (settings (html_pass ev s)) = debug (settings s)"
  by (simp add: html_pass_def)

lemma settings_warn [simp]: "settings (warn_unknown_output s) = settings s"
  "builder (warn_unknown_output s) = builder s"
  "sitemapProvided (warn_unknown_output s) = sitemapProvided s"
  by (simp_all add: warn_unknown_output_def)

lemma sitegraph_dir_pre [simp]:
  "sitegraph_dir (html_pass ev (warn_unknown_output s)) = sitegraph_dir s"
  "sitemap_file (html_pass ev (warn_unknown_output s)) = sitemap_file s"
  "indent_of (settings (html_pass ev (warn_unknown_output s))) = indent_of (settings s)"
  by (simp_all add: sitegraph_dir_def sitemap_file_def indent_of_def)

lemma persist_last_effect:
  "snd (persist_sitemap ev s) = Some x \<Longrightarrow>
   last (effects (fst (persist_sitemap ev s))) = Logged Err (WriteFailed (message x))"
  by (auto simp: persist_sitemap_def write_failed_def Let_def split: option.splits)

lemma html_pass_sitemap_Some:
  "\<not> sitemapProvided s \<Longrightarrow> sitemap (sitemapConfig (settings (html_pass ev s))) \<noteq> None"
  by (simp add: html_pass_def retrieve_html_links_def html_fallback_def Let_def split: option.splits sum.splits)








lemma stringify_sitemap_pretty:
  \<open>prefix (''{'' @ [CHR 0x0A] @ ''  "nodes": '') (JSON_stringify (sitemap_json m) 2)\<close>
  by (simp add: JSON_stringify_def sitemap_json_def quote_def quote_char_def Let_def numeral_2_eq_2)

lemma stringify_sitemap_compact:
  \<open>prefix ''{"nodes":'' (JSON_stringify (sitemap_json m) 0)\<close>
  by (simp add: JSON_stringify_def sitemap_json_def quote_def quote_char_def Let_def)

lemma written_files_append [simp]: "written_files (xs @ ys) = written_files xs @ written_files ys"
  by (induction xs rule: written_files.induct) simp_all

lemma effects_html_fallback [simp]:
  "written_files (effects (html_fallback e s)) = written_files (effects s)"
  by (simp add: html_fallback_def)

lemma written_retrieve_html [simp]:
  "written_files (effects (retrieve_html_links ev s)) = written_files (effects s)"
  by (simp add: retrieve_html_links_def Let_def split: option.splits sum.splits)

lemma written_before_persist [simp]:
  "written_files (effects (html_pass ev (warn_unknown_output s))) = written_files (effects s)"
  by (simp add: html_pass_def warn_unknown_output_def)






lemma sitemapProvided_before_generate:
  "sitemapProvided (configure_builder config (default_contentRoot ev config (apply_picomatch_patch ev s)))
     = sitemapProvided s"
  by (simp add: configure_builder_def default_contentRoot_def set_contentRoot_def
      apply_picomatch_patch_def split: option.splits)

lemma config_setup_returns:
  assumes np: "\<not> sitemapProvided s"
      and out: "resolve_outputPath ev config = Inr p"
      and host: "\<forall>u. u \<noteq> PicomatchPolyfill \<longrightarrow> host_throws ev (CallUpdateConfig u) = None"
        "host_throws ev CallAddVirtualImports = None" "host_throws ev CallInjectScript = None"
  shows "snd (astro_config_setup ev cmd config s) = None"
proof -
  define s3 where "s3 = configure_builder config (default_contentRoot ev config (apply_picomatch_patch ev s))"
  have s3: "\<not> sitemapProvided s3" using np by (simp add: s3_def sitemapProvided_before_generate)
  obtain s4 config' where p: "ensure_prefetch config s3 = (s4, config')"
    by (cases "ensure_prefetch config s3")
  then have s4: "\<not> sitemapProvided s4" "resolve_outputPath ev config' = Inr p"
    using s3 out by (auto simp: ensure_prefetch_def split: if_splits)
  define s5 where "s5 = s4\<lparr>outputPath := Some p\<rparr>"
  have c: "choose_outputPath ev config' s4 = (s5, None)"
    by (simp add: choose_outputPath_def s4 s5_def)
  obtain s6 failed where r: "retrieve_markdown_links ev cmd config' s5 = (s6, failed)"
    by (cases "retrieve_markdown_links ev cmd config' s5")
  have g: "generate_sitemap ev cmd config' s5 = ((s6, None), failed)"
    using s4 r by (simp add: generate_sitemap_def s5_def)
  have "astro_config_setup ev cmd config s = finish_config_setup ev cmd config' failed s6"
    unfolding astro_config_setup_def Let_def s3_def [symmetric] p prod.case c
    by (simp add: and_then_def g)
  with finish_config_setup_returns(1) [OF host] show ?thesis by simp
qed

text \<open>
  C1. The content root is missing: \<^verbatim>\<open>fs.promises.access\<close> fails on it when
  \<^verbatim>\<open>astro:config:setup\<close> runs in \<^verbatim>\<open>dev\<close> or \<^verbatim>\<open>build\<close> for a sitemap that was not
  provided. Provided that the output path resolves and that Astro's own calls return,
  the hook returns without throwing; the sitemap it stores is the empty sitemap, which
  is what processing the builder gives, as no pass has touched it; the error is logged
  and the degraded-mode warning is given to the logger.
\<close>

theorem missing_content_root_is_recoverable:
  assumes np: "sitemap (sitemapConfig opts) = None"
      and cmd: "cmd = Dev \<or> cmd = Build"
      and dir: "dir = (if contentRoot (sitemapConfig opts) = []
                       then trimSlashes ev (srcDir_pathname config)
                            @ (if starlight opts then ''/content/docs'' else ''/pages'')
                       else contentRoot (sitemapConfig opts))"
      and acc: "fs_access ev dir = Some e"
      and out: "resolve_outputPath ev config = Inr p"
      and host: "\<forall>u. u \<noteq> PicomatchPolyfill \<longrightarrow> host_throws ev (CallUpdateConfig u) = None"
        "host_throws ev CallAddVirtualImports = None" "host_throws ev CallInjectScript = None"
  shows "\<exists>s. astro_config_setup ev cmd config (integration_setup opts) = (s, None)
           \<and> sitemap (sitemapConfig (settings s)) = Some \<lparr>nodes = [], links = []\<rparr>
           \<and> sitemap (sitemapConfig (settings s)) = Some (toSitemap (snd (process (builder s))))
           \<and> entries (builder s) = []
           \<and> Logged Err (ContentDirectoryNotFound dir (message e)) \<in> set (effects s)
           \<and> Logged Warn (DegradedMode (ContentDirectoryMissing dir)) \<in> set (effects s)"
proof -
  define s3 where "s3 = configure_builder config (default_contentRoot ev config
      (apply_picomatch_patch ev (integration_setup opts)))"
  have s3: "\<not> sitemapProvided s3" "contentRoot (sitemapConfig (settings s3)) = dir"
    "entries (builder s3) = []"
    by (simp_all add: s3_def dir configure_builder_def default_contentRoot_def set_contentRoot_def
        apply_picomatch_patch_def integration_setup_def np new_SiteMapBuilder_def
        setTrailingSlash_def setContentRoot_def split: option.splits)
  obtain s4 config' where p: "ensure_prefetch config s3 = (s4, config')"
    by (cases "ensure_prefetch config s3")
  then have s4: "\<not> sitemapProvided s4" "contentRoot (sitemapConfig (settings s4)) = dir"
    "entries (builder s4) = []" "resolve_outputPath ev config' = Inr p"
    using s3 out by (auto simp: ensure_prefetch_def split: if_splits)
  define s5 where "s5 = s4\<lparr>outputPath := Some p\<rparr>"
  have c: "choose_outputPath ev config' s4 = (s5, None)"
    by (simp add: choose_outputPath_def s4 s5_def)
  define s6 where "s6 = process_builder
       (logger Err (ContentDirectoryNotFound dir (message e))
          ((logger Info (RetrievingMarkdown (pageInclusionRules (sitemapConfig (settings s5)))) s5)
             \<lparr>builder := setBasePath (base config') (builder s5)\<rparr>))"
  have g: "generate_sitemap ev cmd config' s5 = ((s6, None), Some (ContentDirectoryMissing dir))"
    using retrieve_markdown_access_fails [of cmd ev s5 e config'] cmd acc s4
    by (simp add: generate_sitemap_def s5_def s6_def)
  have s6: "sitemap (sitemapConfig (settings s6)) = Some \<lparr>nodes = [], links = []\<rparr>"
    "entries (builder s6) = []"
    "Logged Err (ContentDirectoryNotFound dir (message e)) \<in> set (effects s6)"
    using s4 by (simp_all add: s6_def s5_def setBasePath_def finalize_empty)
  let ?r = "finish_config_setup ev cmd config' (Some (ContentDirectoryMissing dir)) s6"
  note f = finish_config_setup_returns [OF host, where cmd = cmd and config = config'
      and failed = "Some (ContentDirectoryMissing dir)" and s = s6]
  have a: "astro_config_setup ev cmd config (integration_setup opts) = ?r"
    unfolding astro_config_setup_def Let_def s3_def [symmetric] p prod.case c
    by (simp add: and_then_def g)
  have "?r = (fst ?r, None)" using f(1) by (cases ?r) simp
  moreover have "sitemap (sitemapConfig (settings (fst ?r))) = Some \<lparr>nodes = [], links = []\<rparr>"
    using f(2) s6 by simp
  moreover have "entries (builder (fst ?r)) = []" using s6 by simp
  moreover have "Logged Err (ContentDirectoryNotFound dir (message e)) \<in> set (effects (fst ?r))"
    using f(3) s6 by auto
  moreover have "Logged Warn (DegradedMode (ContentDirectoryMissing dir)) \<in> set (effects (fst ?r))"
    using f(4) by simp
  ultimately show ?thesis
    unfolding a by (intro exI [of _ "fst ?r"]) (simp add: process_def toSitemap_def finalize_empty)
qed

theorem missing_content_root_witness:
  "\<exists>s. astro_config_setup sample_env Build sample_config (integration_setup sample_settings) = (s, None)
     \<and> sitemap (sitemapConfig (settings s)) = Some \<lparr>nodes = [], links = []\<rparr>
     \<and> Logged Warn (DegradedMode (ContentDirectoryMissing ''site/src/content/docs'')) \<in> set (effects s)"
proof -
  have np: "sitemap (sitemapConfig sample_settings) = None" by (simp add: sample_settings_def)
  have dir: "''site/src/content/docs'' =
      (if contentRoot (sitemapConfig sample_settings) = []
       then trimSlashes sample_env (srcDir_pathname sample_config)
            @ (if starlight sample_settings then ''/content/docs'' else ''/pages'')
       else contentRoot (sitemapConfig sample_settings))"
    by (simp add: sample_settings_def sample_env_def sample_config_def strip_slashes_def)
  have acc: "fs_access sample_env ''site/src/content/docs'' =
      Some (ErrorObj ''ENOENT: no such file or directory, access site/src/content/docs'')"
    by (simp add: sample_env_def)
  have out: "resolve_outputPath sample_env sample_config = Inr ''/site/dist/''"
    by (simp add: resolve_outputPath_def sample_env_def sample_config_def)
  have host: "\<forall>u. u \<noteq> PicomatchPolyfill \<longrightarrow> host_throws sample_env (CallUpdateConfig u) = None"
    "host_throws sample_env CallAddVirtualImports = None"
    "host_throws sample_env CallInjectScript = None"
    by (simp_all add: sample_env_def)
  from missing_content_root_is_recoverable [OF np _ dir acc out host, of Build]
  show ?thesis by auto
qed

text \<open>
  C2. In \<^verbatim>\<open>astro:build:done\<close> a failure of \<^verbatim>\<open>mkdir\<close> or of \<^verbatim>\<open>writeFile\<close> is logged as
  an error and thrown again, as an \<^verbatim>\<open>Error\<close>; the log entry is the last thing the hook
  does. Nothing else makes the hook throw: when it throws, the directory could not be
  made or the file could not be written (or there was no sitemap to write). In
  particular, whatever the access to the output directory and the HTML scan do, the hook
  returns when the directory is made and the file is written. Likewise
  \<^verbatim>\<open>astro:config:setup\<close>, crawling, returns whatever the access to the content root and
  the Markdown scan do, when the output path resolves and Astro's own calls return.
\<close>

theorem persist_failure_is_fatal:
  "(fs_mkdir ev (sitegraph_dir s) = Some e \<longrightarrow>
      snd (astro_build_done ev s) = Some (to_Error e)
      \<and> last (effects (fst (astro_build_done ev s))) = Logged Err (WriteFailed (message e)))
   \<and> (fs_mkdir ev (sitegraph_dir s) = None \<longrightarrow>
      sitemap (sitemapConfig (settings (html_pass ev (warn_unknown_output s)))) = Some m \<longrightarrow>
      fs_writeFile ev (sitemap_file s) (JSON_stringify (sitemap_json m) (indent_of (settings s))) = Some e \<longrightarrow>
      snd (astro_build_done ev s) = Some (to_Error e)
      \<and> last (effects (fst (astro_build_done ev s))) = Logged Err (WriteFailed (message e)))
   \<and> (snd (astro_build_done ev s) = Some x \<longrightarrow>
      (\<exists>e'. x = to_Error e'
         \<and> last (effects (fst (astro_build_done ev s))) = Logged Err (WriteFailed (message e'))
         \<and> (fs_mkdir ev (sitegraph_dir s) = Some e'
            \<or> fs_mkdir ev (sitegraph_dir s) = None
              \<and> (\<exists>m'. sitemap (sitemapConfig (settings (html_pass ev (warn_unknown_output s)))) = Some m'
                   \<and> fs_writeFile ev (sitemap_file s)
                        (JSON_stringify (sitemap_json m') (indent_of (settings s))) = Some e')
            \<or> fs_mkdir ev (sitegraph_dir s) = None
              \<and> sitemap (sitemapConfig (settings (html_pass ev (warn_unknown_output s)))) = None
              \<and> e' = data_type_error)))
   \<and> (\<not> sitemapProvided s \<longrightarrow> fs_mkdir ev (sitegraph_dir s) = None \<longrightarrow>
      (\<forall>p c. fs_writeFile ev p c = None) \<longrightarrow> snd (astro_build_done ev s) = None)
   \<and> (\<not> sitemapProvided s \<longrightarrow> resolve_outputPath ev config = Inr out \<longrightarrow>
      (\<forall>u. u \<noteq> PicomatchPolyfill \<longrightarrow> host_throws ev (CallUpdateConfig u) = None) \<longrightarrow>
      host_throws ev CallAddVirtualImports = None \<longrightarrow> host_throws ev CallInjectScript = None \<longrightarrow>
      snd (astro_config_setup ev cmd config s) = None)"
proof (intro conjI impI)
  assume a: "fs_mkdir ev (sitegraph_dir s) = Some e"
  then show t: "snd (astro_build_done ev s) = Some (to_Error e)"
    by (simp add: astro_build_done_def persist_throws)
  from persist_last_effect [of ev "html_pass ev (warn_unknown_output s)"] t
  show "last (effects (fst (astro_build_done ev s))) = Logged Err (WriteFailed (message e))"
    by (simp add: astro_build_done_def)
next
  assume a: "fs_mkdir ev (sitegraph_dir s) = None"
    "sitemap (sitemapConfig (settings (html_pass ev (warn_unknown_output s)))) = Some m"
    "fs_writeFile ev (sitemap_file s) (JSON_stringify (sitemap_json m) (indent_of (settings s))) = Some e"
  then show t: "snd (astro_build_done ev s) = Some (to_Error e)"
    by (simp add: astro_build_done_def persist_throws)
  from persist_last_effect [of ev "html_pass ev (warn_unknown_output s)"] t
  show "last (effects (fst (astro_build_done ev s))) = Logged Err (WriteFailed (message e))"
    by (simp add: astro_build_done_def)
next
  assume a: "snd (astro_build_done ev s) = Some x"
  from persist_last_effect [of ev "html_pass ev (warn_unknown_output s)" x] a
  have l: "last (effects (fst (astro_build_done ev s))) = Logged Err (WriteFailed (message x))"
    by (simp add: astro_build_done_def)
  from a have "snd (persist_sitemap ev (html_pass ev (warn_unknown_output s))) = Some x"
    by (simp add: astro_build_done_def)
  then show "\<exists>e'. x = to_Error e'
         \<and> last (effects (fst (astro_build_done ev s))) = Logged Err (WriteFailed (message e'))
         \<and> (fs_mkdir ev (sitegraph_dir s) = Some e'
            \<or> fs_mkdir ev (sitegraph_dir s) = None
              \<and> (\<exists>m'. sitemap (sitemapConfig (settings (html_pass ev (warn_unknown_output s)))) = Some m'
                   \<and> fs_writeFile ev (sitemap_file s)
                        (JSON_stringify (sitemap_json m') (indent_of (settings s))) = Some e')
            \<or> fs_mkdir ev (sitegraph_dir s) = None
              \<and> sitemap (sitemapConfig (settings (html_pass ev (warn_unknown_output s)))) = None
              \<and> e' = data_type_error)"
    using l by (auto simp: persist_throws split: option.splits)
next
  assume "\<not> sitemapProvided s" "fs_mkdir ev (sitegraph_dir s) = None" "\<forall>p c. fs_writeFile ev p c = None"
  then show "snd (astro_build_done ev s) = None"
    using html_pass_sitemap_Some [of "warn_unknown_output s" ev]
    by (auto simp: astro_build_done_def persist_throws split: option.splits)
next
  assume "\<not> sitemapProvided s" "resolve_outputPath ev config = Inr out"
    "\<forall>u. u \<noteq> PicomatchPolyfill \<longrightarrow> host_throws ev (CallUpdateConfig u) = None"
    "host_throws ev CallAddVirtualImports = None" "host_throws ev CallInjectScript = None"
  then show "snd (astro_config_setup ev cmd config s) = None" by (rule config_setup_returns)
qed

theorem persist_failure_witness:
  "snd (astro_build_done sample_env (crawled_state\<lparr>outputPath := Some ''/readonly/dist''\<rparr>))
     = Some (ErrorObj ''EACCES: permission denied, mkdir /readonly/dist/sitegraph'')
   \<and> last (effects (fst (astro_build_done sample_env (crawled_state\<lparr>outputPath := Some ''/readonly/dist''\<rparr>))))
     = Logged Err (WriteFailed ''EACCES: permission denied, mkdir /readonly/dist/sitegraph'')"
proof -
  let ?s = "crawled_state\<lparr>outputPath := Some ''/readonly/dist''\<rparr>"
  let ?e = "ErrorObj ''EACCES: permission denied, mkdir /readonly/dist/sitegraph''"
  have m: "fs_mkdir sample_env (sitegraph_dir ?s) = Some ?e"
    by (simp add: sample_env_def sitegraph_dir_def template_def)
  have e: "to_Error ?e = ?e" "message ?e = ''EACCES: permission denied, mkdir /readonly/dist/sitegraph''"
    by (simp_all add: to_Error_def message_def)
  from persist_failure_is_fatal [of sample_env ?s ?e, THEN conjunct1, rule_format, OF m]
  show ?thesis unfolding e .
qed





lemma persist_builder [simp]: "builder (fst (persist_sitemap ev s)) = builder s"
  by (simp add: persist_sitemap_def write_failed_def Let_def split: option.splits)






text \<open>
  C8. \<^verbatim>\<open>setTrailingSlash\<close> is called with \<^verbatim>\<open>config.trailingSlash !== 'never'\<close>.
  Whatever \<^verbatim>\<open>astro:config:setup\<close> does afterwards, and also when it throws, the
  builder's trailing-slash policy is then the one \<^verbatim>\<open>setTrailingSlash\<close> was given:
  \<^verbatim>\<open>true\<close> for every value of \<^verbatim>\<open>config.trailingSlash\<close> other than \<^verbatim>\<open>never\<close>, so for
  \<^verbatim>\<open>ignore\<close> as for \<^verbatim>\<open>always\<close>, and \<^verbatim>\<open>false\<close> for \<^verbatim>\<open>never\<close> only.
\<close>

theorem trailing_slash_collapse:
  "addTrailingSlash config = (trailingSlash config \<noteq> ''never'')
   \<and> builder (configure_builder config s0) =
       setTrailingSlash (trailingSlash config \<noteq> ''never'')
         (setContentRoot (contentRoot (sitemapConfig (settings s0))) (builder s0))
   \<and> b_trailingSlash (builder (fst (astro_config_setup ev cmd config s))) = Some (trailingSlash config \<noteq> ''never'')"
proof -
  let ?Q = "\<lambda>s. b_trailingSlash (builder s)"
  let ?s3 = "configure_builder config (default_contentRoot ev config (apply_picomatch_patch ev s))"
  have 3: "?Q ?s3 = Some (trailingSlash config \<noteq> ''never'')"
    by (simp add: configure_builder_def setTrailingSlash_def addTrailingSlash_def)
  obtain s4 config' where p: "ensure_prefetch config ?s3 = (s4, config')" by (cases "ensure_prefetch config ?s3")
  then have 4: "?Q s4 = ?Q ?s3" using builder_prefetch [of config ?s3] by simp
  have "?Q (fst (astro_config_setup ev cmd config s)) = ?Q (fst (choose_outputPath ev config' s4))"
    unfolding astro_config_setup_def Let_def p prod.case
  proof (rule and_then_preserves)
    fix s'
    obtain r failed where g: "generate_sitemap ev cmd config' s' = (r, failed)"
      by (cases "generate_sitemap ev cmd config' s'")
    have "?Q (fst (and_then r (finish_config_setup ev cmd config' failed))) = ?Q (fst r)"
      by (rule and_then_preserves) simp
    also have "\<dots> = ?Q s'" using bts_generate [of ev cmd config' s'] g by simp
    finally show "?Q (fst (case generate_sitemap ev cmd config' s' of
            (r, failed) \<Rightarrow> and_then r (finish_config_setup ev cmd config' failed))) = ?Q s'"
      by (simp add: g)
  qed
  with 3 4 show ?thesis by (simp add: addTrailingSlash_def configure_builder_def)
qed

theorem trailing_slash_collapse_witness:
  "b_trailingSlash (builder (fst (astro_config_setup sample_env Build sample_config
      (integration_setup sample_settings)))) = Some True"
  using trailing_slash_collapse [of sample_config _ sample_env Build "integration_setup sample_settings"]
  by (simp add: sample_config_def)

section \<open>Properties of the builder\<close>


lemma alist_eqI:
  "distinct (map fst xs) \<Longrightarrow> map fst xs = map fst ys \<Longrightarrow> map_of xs = map_of ys \<Longrightarrow> xs = ys"
proof (induction xs arbitrary: ys)
  case Nil
  then show ?case by simp
next
  case (Cons x xs)
  then obtain y ys' where ys: "ys = y # ys'" by (cases ys) auto
  obtain k v where x: "x = (k, v)" by (cases x)
  obtain w where y: "y = (k, w)" using Cons.prems(2) ys x by (cases y) auto
  have vw: "v = w" using Cons.prems(3) x y ys by (auto dest: fun_cong [of _ _ k])
  have keys: "map fst xs = map fst ys'" using Cons.prems(2) ys by simp
  have knot: "k \<notin> set (map fst xs)" using Cons.prems(1) x by simp
  have "map_of xs = map_of ys'"
  proof
    fix j
    show "map_of xs j = map_of ys' j"
    proof (cases "j = k")
      case True
      have "map_of xs k = None" using knot by (simp add: map_of_eq_None_iff)
      moreover have "map_of ys' k = None" using knot keys by (simp add: map_of_eq_None_iff)
      ultimately show ?thesis using True by simp
    next
      case False
      then show ?thesis using fun_cong [OF Cons.prems(3), of j] x y ys by simp
    qed
  qed
  with Cons.IH [of ys'] Cons.prems(1) keys have "xs = ys'" by simp
  with x y vw ys show ?case by simp
qed

lemma upsert_keys:
  "map fst (upsert r acc) = (if e_id r \<in> set (map fst acc) then map fst acc else map fst acc @ [e_id r])"
  by (simp add: upsert_def update_keys)

lemma fold_upsert_distinct:
  "distinct (map fst acc) \<Longrightarrow> distinct (map fst (fold upsert rs acc))"
  by (induction rs arbitrary: acc) (simp_all add: upsert_def distinct_update)

lemma fold_upsert_keys_mono:
  "set (map fst acc) \<subseteq> set (map fst (fold upsert rs acc))"
proof (induction rs arbitrary: acc)
  case (Cons r rs)
  have "set (map fst acc) \<subseteq> set (map fst (upsert r acc))" by (auto simp: upsert_keys)
  with Cons [of "upsert r acc"] show ?case by auto
qed simp

lemma fold_upsert_keys_cover:
  "set (map e_id rs) \<subseteq> set (map fst (fold upsert rs acc))"
proof (induction rs arbitrary: acc)
  case (Cons r rs)
  have "e_id r \<in> set (map fst (upsert r acc))" by (auto simp: upsert_keys)
  with fold_upsert_keys_mono [of "upsert r acc" rs] Cons [of "upsert r acc"] show ?case by auto
qed simp

lemma fold_upsert_keys_same:
  "set (map e_id rs) \<subseteq> set (map fst acc) \<Longrightarrow> map fst (fold upsert rs acc) = map fst acc"
proof (induction rs arbitrary: acc)
  case (Cons r rs)
  then have k: "map fst (upsert r acc) = map fst acc" by (simp add: upsert_keys)
  with Cons.prems have "set (map e_id rs) \<subseteq> set (map fst (upsert r acc))" by simp
  from Cons.IH [OF this] k show ?case by simp
qed simp

lemma fold_upsert_map_of:
  "map_of (fold upsert rs acc) = map_of acc ++ map_of (rev (map (\<lambda>r. (e_id r, entry_of r)) rs))"
  by (induction rs arbitrary: acc) (simp_all add: upsert_def update_conv' map_add_upd_left [symmetric] del: map_add_upd_left)

lemma fold_upsert_idem:
  assumes "distinct (map fst acc)"
  shows "fold upsert rs (fold upsert rs acc) = fold upsert rs acc"
proof (rule alist_eqI)
  show "distinct (map fst (fold upsert rs (fold upsert rs acc)))"
    by (intro fold_upsert_distinct assms)
  show "map fst (fold upsert rs (fold upsert rs acc)) = map fst (fold upsert rs acc)"
    by (rule fold_upsert_keys_same) (rule fold_upsert_keys_cover)
  show "map_of (fold upsert rs (fold upsert rs acc)) = map_of (fold upsert rs acc)"
    by (rule ext) (simp add: fold_upsert_map_of map_add_def split: option.splits)
qed

lemma addPass_idem:
  "distinct (map fst (entries b)) \<Longrightarrow> addPass rs (addPass rs b) = addPass rs b"
  by (simp add: addPass_def fold_upsert_idem)

text \<open>
  C4. For a builder that holds one entry per canonical id: after a Markdown pass,
  \<^verbatim>\<open>process()\<close> leaves the builder as it is, so a second call gives the same sitemap and
  the same JSON document; and a second Markdown pass over the unchanged directory leaves
  the builder as the first pass left it, so the sitemap has the same nodes and the same
  links. The pass keeps one entry per id.
\<close>

theorem sitemap_production_is_deterministic:
  assumes "distinct (map fst (entries b))"
      and "addMDContentFolder ev dir rules b = Inr b1"
  shows "fst (process b1) = b1
     \<and> toSitemap (snd (process (fst (process b1)))) = toSitemap (snd (process b1))
     \<and> JSON_stringify (sitemap_json (toSitemap (snd (process (fst (process b1)))))) n
         = JSON_stringify (sitemap_json (toSitemap (snd (process b1)))) n
     \<and> addMDContentFolder ev dir rules b1 = Inr b1
     \<and> (\<exists>b2. addMDContentFolder ev dir rules b1 = Inr b2
           \<and> nodes (toSitemap (snd (process b2))) = nodes (toSitemap (snd (process b1)))
           \<and> links (toSitemap (snd (process b2))) = links (toSitemap (snd (process b1))))
     \<and> distinct (map fst (entries b1))"
proof -
  from assms(2) obtain files where f: "scan ev Markdown dir rules = Inr files"
    and b1: "b1 = addPass (map (extract_file ev Markdown) files) b"
    by (auto simp: addMDContentFolder_def addContentFolder_def split: sum.splits)
  have again: "addMDContentFolder ev dir rules b1 = Inr b1"
    using addPass_idem [OF assms(1), of "map (extract_file ev Markdown) files"]
    by (simp add: addMDContentFolder_def addContentFolder_def f b1)
  have d: "distinct (map fst (entries b1))"
    using assms(1) by (simp add: b1 addPass_def fold_upsert_distinct)
  show ?thesis using again d by (simp add: process_def)
qed

theorem deterministic_witness:
  "\<exists>b1. addMDContentFolder sample_env ''docs'' [] (new_SiteMapBuilder (sitemapConfig docs_settings)) = Inr b1
     \<and> addMDContentFolder sample_env ''docs'' [] b1 = Inr b1"
proof -
  let ?b = "new_SiteMapBuilder (sitemapConfig docs_settings)"
  let ?b1 = "addPass (map (sample_extract Markdown) [\<lparr>path = ''a'', raw_text = ''b''\<rparr>, \<lparr>path = ''b'', raw_text = []\<rparr>]) ?b"
  have d: "distinct (map fst (entries ?b))" by (simp add: new_SiteMapBuilder_def)
  have a: "addMDContentFolder sample_env ''docs'' [] ?b = Inr ?b1"
    by (simp add: addMDContentFolder_def addContentFolder_def sample_env_def)
  from sitemap_production_is_deterministic [OF d a, of 0] a
  show ?thesis by blast
qed

end
